theory Spec2Isabelle
  imports Complex_Main "HOL-Library.AList"
begin

section \<open>Python values and dictionaries\<close>

text \<open>
  The property mappings of a column hold JSON-like Python values. A float is modelled by
  its exact value (nan and the infinities are left out), which is all the converter
  uses: it only tests numbers for truth, equality and order, never computes with them.
\<close>

datatype pyval =
    PNone
  | PBool bool
  | PInt int
  | PFloat rat
  | PStr string
  | PList "pyval list"
  | PDict "(string \<times> pyval) list"

text \<open>
  A Python \<open>dict\<close> is an association list in insertion order with distinct keys:
  assigning to a key that is present keeps its position, a new key goes to the end.
\<close>

type_synonym ('k, 'v) dict = "('k \<times> 'v) list"

type_synonym pydict = "(string, pyval) dict"

definition dict_lookup :: "('k, 'v) dict \<Rightarrow> 'k \<Rightarrow> 'v option" where
  "dict_lookup d k = map_of d k"

definition dict_setitem :: "('k, 'v) dict \<Rightarrow> 'k \<Rightarrow> 'v \<Rightarrow> ('k, 'v) dict" where
  "dict_setitem d k v = AList.update k v d"

text \<open>\<open>d.pop(k, default)\<close>: the dictionary without the key, and the value removed.\<close>

definition dict_pop :: "('k, 'v) dict \<Rightarrow> 'k \<Rightarrow> 'v \<Rightarrow> ('k, 'v) dict \<times> 'v" where
  "dict_pop d k dflt =
     (AList.delete k d, case map_of d k of None \<Rightarrow> dflt | Some v \<Rightarrow> v)"

text \<open>\<open>d.get(k)\<close> and \<open>d.get(k, None)\<close>: the value \<open>None\<close> when the key is absent.\<close>

definition dict_get :: "pydict \<Rightarrow> string \<Rightarrow> pyval" where
  "dict_get d k = (case map_of d k of None \<Rightarrow> PNone | Some v \<Rightarrow> v)"

text \<open>Truth value testing, as \<open>if x\<close> and \<open>x and y\<close> do it.\<close>

fun truthy :: "pyval \<Rightarrow> bool" where
  "truthy PNone = False"
| "truthy (PBool b) = b"
| "truthy (PInt i) = (i \<noteq> 0)"
| "truthy (PFloat r) = (r \<noteq> 0)"
| "truthy (PStr s) = (s \<noteq> [])"
| "truthy (PList xs) = (xs \<noteq> [])"
| "truthy (PDict d) = (d \<noteq> [])"

text \<open>The numeric value of a number; \<open>bool\<close> is a subclass of \<open>int\<close>.\<close>

fun py_num :: "pyval \<Rightarrow> rat option" where
  "py_num (PBool b) = Some (if b then 1 else 0)"
| "py_num (PInt i) = Some (of_int i)"
| "py_num (PFloat r) = Some r"
| "py_num _ = None"

text \<open>
  \<open>x == y\<close>: numbers by value, strings and lists by content, dictionaries by their
  items whatever the order, \<open>None\<close> only with itself; never an error.
\<close>

fun py_eq :: "pyval \<Rightarrow> pyval \<Rightarrow> bool"
  and py_eq_list :: "pyval list \<Rightarrow> pyval list \<Rightarrow> bool"
  and py_eq_items :: "(string \<times> pyval) list \<Rightarrow> (string \<times> pyval) list \<Rightarrow> bool" where
  "py_eq PNone PNone = True"
| "py_eq (PStr s) (PStr t) = (s = t)"
| "py_eq (PList xs) (PList ys) = py_eq_list xs ys"
| "py_eq (PDict d) (PDict e) = (length d = length e \<and> py_eq_items d e)"
| "py_eq a b =
     (case py_num a of None \<Rightarrow> False
      | Some x \<Rightarrow> (case py_num b of None \<Rightarrow> False | Some y \<Rightarrow> x = y))"
| "py_eq_list [] [] = True"
| "py_eq_list (x # xs) (y # ys) = (py_eq x y \<and> py_eq_list xs ys)"
| "py_eq_list _ _ = False"
| "py_eq_items [] e = True"
| "py_eq_items ((k, v) # d) e =
     ((case map_of e k of None \<Rightarrow> False | Some w \<Rightarrow> py_eq v w) \<and> py_eq_items d e)"

text \<open>Strings are ordered lexicographically by character code.\<close>

fun str_lt :: "string \<Rightarrow> string \<Rightarrow> bool" where
  "str_lt [] [] = False"
| "str_lt [] (d # t) = True"
| "str_lt (c # s) [] = False"
| "str_lt (c # s) (d # t) =
     (if c = d then str_lt s t else (of_char c :: nat) < of_char d)"

section \<open>Column dtypes and errors\<close>

text \<open>
  The dtype of a column is any Python object; \<open>_dtype_name\<close> looks only at which
  attributes it has, in this order, so a dtype is modelled by the first test it passes:
  \<^item> \<open>NumpyDtype k\<close>: an object with attribute \<open>kind\<close> (a numpy dtype), \<open>k\<close> its kind
    character;
  \<^item> \<open>NumpyScalarType n\<close>: an object with attribute \<open>item\<close> (a numpy scalar class),
    \<open>n\<close> the name of the Python type of \<open>dtype(1).item()\<close>;
  \<^item> \<open>DtypeStr s\<close>: a string;
  \<^item> \<open>PyType n\<close>: an object with attribute \<open>__name__\<close> (a Python class), \<open>n\<close> that
    name;
  \<^item> \<open>NoDtype\<close>: \<open>None\<close>, or any other object with none of these.
\<close>

datatype dtype =
    NumpyDtype char
  | NumpyScalarType string
  | DtypeStr string
  | PyType string
  | NoDtype

text \<open>
  Every exception the converter can raise:
  \<^item> \<open>UnsupportedDtype\<close>: the \<open>TypeError\<close> of \<open>_dtype_name\<close>, with the dtype;
  \<^item> \<open>UnknownKind\<close>: the \<open>RuntimeError\<close> of numpy's \<open>_kind_name\<close>;
  \<^item> \<open>AttributeError\<close>: \<open>.get\<close> on a value that is not a dictionary;
  \<^item> \<open>NotOrderable\<close>: the \<open>TypeError\<close> of \<open><\<close> between values that have no order;
  \<^item> \<open>KeyError\<close>: a missing key of a lookup table;
  \<^item> \<open>MalformedExtension\<close>: the \<open>ValueError\<close> of \<open>merlin_properties\<close>, with the
    feature's name and the number of entries;
  \<^item> \<open>DecodeError\<close>: protobuf's error on a payload that does not parse;
  \<^item> \<open>OverflowError\<close>: the error of \<open>json_format.ParseDict\<close> on an integer that is
    too large for a double.
\<close>

datatype error =
    UnsupportedDtype dtype
  | UnknownKind char
  | AttributeError pyval
  | NotOrderable pyval pyval
  | KeyError
  | MalformedExtension string nat
  | DecodeError
  | OverflowError

text \<open>
  \<open>x < y\<close>: numbers by value, strings and lists lexicographically; anything else
  raises \<open>TypeError\<close>.
\<close>

fun py_lt :: "pyval \<Rightarrow> pyval \<Rightarrow> error + bool"
  and py_lt_list :: "pyval list \<Rightarrow> pyval list \<Rightarrow> error + bool" where
  "py_lt (PStr s) (PStr t) = Inr (str_lt s t)"
| "py_lt (PList xs) (PList ys) = py_lt_list xs ys"
| "py_lt a b =
     (case py_num a of None \<Rightarrow> Inl (NotOrderable a b)
      | Some x \<Rightarrow> (case py_num b of None \<Rightarrow> Inl (NotOrderable a b) | Some y \<Rightarrow> Inr (x < y)))"
| "py_lt_list [] [] = Inr False"
| "py_lt_list [] (y # ys) = Inr True"
| "py_lt_list (x # xs) [] = Inr False"
| "py_lt_list (x # xs) (y # ys) = (if py_eq x y then py_lt_list xs ys else py_lt x y)"

section \<open>The internal schema model\<close>

text \<open>
  Modelled from the spec: the \<open>Tags\<close> enumeration is not among the sources. A tag of a
  column is a member of the enumeration, given by its value, or a plain string.
\<close>

datatype tag = EnumTag string | StrTag string

definition Tags_CATEGORICAL :: tag where
  "Tags_CATEGORICAL = EnumTag ''categorical''"

text \<open>\<open>tag.value\<close> of a member of the enumeration.\<close>

fun Tags_value :: "tag \<Rightarrow> string" where
  "Tags_value (EnumTag v) = v"
| "Tags_value (StrTag s) = s"

text \<open>
  Modelled from the spec: \<open>ColumnSchema\<close> (the spec's ColumnDescriptor) and the schema
  that holds the columns by name are not among the sources.
\<close>

record ColumnSchema =
  name :: string
  tags :: "tag list"
  properties :: pydict
  dtype :: dtype
  is_list :: bool
  is_ragged :: bool

type_synonym MerlinSchema = "(string, ColumnSchema) dict"

section \<open>The external schema model\<close>

text \<open>
  Modelled from the spec: the messages of \<open>schema_bp\<close> (the spec's FeatureRecord) are
  not among the sources. A message field that is not set is \<open>None\<close>; \<open>int_domain\<close> and
  \<open>float_domain\<close> share one oneof group, \<open>shape\<close> and \<open>value_count\<close> another, so
  setting one clears the other. The fields of the domains and of the value count hold
  whatever Python value they are given.
\<close>

datatype FeatureType = FeatureType_TYPE_UNKNOWN | FeatureType_BYTES | FeatureType_INT | FeatureType_FLOAT | FeatureType_STRUCT

record IntDomain =
  int_domain_name :: string
  int_domain_min :: pyval
  int_domain_max :: pyval
  is_categorical :: bool

record FloatDomain =
  float_domain_name :: string
  float_domain_min :: pyval
  float_domain_max :: pyval

datatype Domain = IntDomainMsg IntDomain | FloatDomainMsg FloatDomain

record FixedShape =
  dim :: pyval

record ValueCount =
  value_count_min :: pyval
  value_count_max :: pyval

text \<open>An untyped entry of the extension slot, with its raw value.\<close>

datatype Entry = Entry (entry_value: pydict)

text \<open>
  The extension slot of an annotation: the typed container \<open>schema_bp.Any(type_url,
  value)\<close>, whose value is the serialised document (of a type \<open>'b\<close> of byte strings), or
  a list of untyped entries.
\<close>

datatype 'b extra_metadata = Any (type_url: string) (any_value: 'b) | Entries "Entry list"

record 'b Annotation =
  tag :: "string list"
  extra_metadata :: "'b extra_metadata"

record 'b Feature =
  fname :: string
  ftype :: FeatureType
  int_domain :: "IntDomain option"
  float_domain :: "FloatDomain option"
  shape :: "FixedShape option"
  value_count :: "ValueCount option"
  annotation :: "'b Annotation"

type_synonym 'b ProtoSchema = "'b Feature list"

text \<open>\<open>Feature(name=n)\<close>: every other field at its default.\<close>

definition Feature :: "string \<Rightarrow> 'b Feature" where
  "Feature n =
     \<lparr>fname = n, ftype = FeatureType_TYPE_UNKNOWN, int_domain = None, float_domain = None,
      shape = None, value_count = None,
      annotation = \<lparr>tag = [], extra_metadata = Entries []\<rparr>\<rparr>"

text \<open>Truth value of a member of the integer enumeration \<open>FeatureType\<close>.\<close>

fun FeatureType_truthy :: "FeatureType \<Rightarrow> bool" where
  "FeatureType_truthy FeatureType_TYPE_UNKNOWN = False"
| "FeatureType_truthy _ = True"

definition DOMAIN_ATTRS :: "(FeatureType, string) dict" where
  "DOMAIN_ATTRS = [(FeatureType_INT, ''int_domain''), (FeatureType_FLOAT, ''float_domain'')]"

definition FEATURE_TYPES :: "(string, FeatureType) dict" where
  "FEATURE_TYPES = [(''int'', FeatureType_INT), (''uint'', FeatureType_INT), (''float'', FeatureType_FLOAT)]"

text \<open>\<open>setattr(feature, attr, domain)\<close> for the two domain fields.\<close>

fun setattr_domain :: "'b Feature \<Rightarrow> string \<Rightarrow> Domain \<Rightarrow> 'b Feature" where
  "setattr_domain f attr (IntDomainMsg d) =
     (if attr = ''int_domain'' then f\<lparr>int_domain := Some d, float_domain := None\<rparr> else f)"
| "setattr_domain f attr (FloatDomainMsg d) =
     (if attr = ''float_domain'' then f\<lparr>float_domain := Some d, int_domain := None\<rparr> else f)"

text \<open>\<open>proto_utils.has_field(feature, attr)\<close> for the two domain fields.\<close>

definition has_field :: "'b Feature \<Rightarrow> string \<Rightarrow> bool" where
  "has_field f attr =
     (if attr = ''int_domain'' then int_domain f \<noteq> None
      else if attr = ''float_domain'' then float_domain f \<noteq> None
      else False)"

section \<open>The protobuf Struct codec\<close>

text \<open>
  Modelled from the protobuf library, which is not among the sources: the conversion
  of a dictionary to a \<open>Struct\<close> message (\<open>json_format.ParseDict\<close>), its serialisation
  into the value of an \<open>Any\<close> (\<open>Pack\<close>), and the way back (\<open>ParseFromString\<close>,
  \<open>dict(msg_struct.items())\<close>). A \<open>Struct\<close> stores every number as a double: an integer
  becomes the double nearest to it (ties to the even mantissa), and an integer that is
  too large for a double raises \<open>OverflowError\<close>. \<open>None\<close>, booleans and strings are
  stored as they are, lists and dictionaries field by field. A nested \<open>Struct\<close> or
  \<open>ListValue\<close> that comes back is modelled by the dictionary or list of its fields.
\<close>

text \<open>The number of bits of a positive integer.\<close>

function bit_length :: "int \<Rightarrow> nat" where
  "bit_length a = (if a \<le> 0 then 0 else Suc (bit_length (a div 2)))"
  by pat_completeness auto
termination
  by (relation "measure nat") auto

text \<open>
  \<open>float(i)\<close>: exact below \<open>2 ^ 53\<close>; otherwise the 53 leading bits, rounded to nearest
  with ties to even; \<open>None\<close> for \<open>OverflowError\<close>.
\<close>

definition float_of_int :: "int \<Rightarrow> rat option" where
  "float_of_int i =
     (let a = \<bar>i\<bar>
      in if a < 2 ^ 53 then Some (of_int i)
         else if 2 ^ 1024 \<le> a then None
         else
           (let e = bit_length a - 53;
                q = a div 2 ^ e;
                r = a mod 2 ^ e;
                m = (if 2 ^ e < 2 * r \<or> (2 * r = 2 ^ e \<and> odd q) then q + 1 else q) * 2 ^ e
            in if 2 ^ 1024 \<le> m then None else Some (of_int (sgn i * m))))"

fun struct_value :: "pyval \<Rightarrow> error + pyval"
  and struct_list :: "pyval list \<Rightarrow> error + pyval list"
  and struct_fields :: "(string \<times> pyval) list \<Rightarrow> error + (string \<times> pyval) list" where
  "struct_value PNone = Inr PNone"
| "struct_value (PBool b) = Inr (PBool b)"
| "struct_value (PInt i) =
     (case float_of_int i of None \<Rightarrow> Inl OverflowError | Some r \<Rightarrow> Inr (PFloat r))"
| "struct_value (PFloat r) = Inr (PFloat r)"
| "struct_value (PStr s) = Inr (PStr s)"
| "struct_value (PList xs) =
     (case struct_list xs of Inl e \<Rightarrow> Inl e | Inr ys \<Rightarrow> Inr (PList ys))"
| "struct_value (PDict d) =
     (case struct_fields d of Inl e \<Rightarrow> Inl e | Inr d' \<Rightarrow> Inr (PDict d'))"
| "struct_list [] = Inr []"
| "struct_list (x # xs) =
     (case struct_value x of
        Inl e \<Rightarrow> Inl e
      | Inr y \<Rightarrow> (case struct_list xs of Inl e \<Rightarrow> Inl e | Inr ys \<Rightarrow> Inr (y # ys)))"
| "struct_fields [] = Inr []"
| "struct_fields ((k, v) # d) =
     (case struct_value v of
        Inl e \<Rightarrow> Inl e
      | Inr w \<Rightarrow> (case struct_fields d of Inl e \<Rightarrow> Inl e | Inr d' \<Rightarrow> Inr ((k, w) # d')))"

text \<open>
  The bytes in the value of an \<open>Any\<close>: the serialisation of a \<open>Struct\<close> with the given
  fields, or bytes that do not parse as one.
\<close>

datatype struct_bytes = StructBytes pydict | OtherBytes

definition struct_pack :: "pydict \<Rightarrow> error + struct_bytes" where
  "struct_pack d =
     (case struct_fields d of Inl e \<Rightarrow> Inl e | Inr d' \<Rightarrow> Inr (StructBytes d'))"

fun struct_parse :: "struct_bytes \<Rightarrow> pydict option" where
  "struct_parse (StructBytes d) = Some d"
| "struct_parse OtherBytes = None"

section \<open>From the internal to the external schema\<close>

definition pb_int_domain :: "ColumnSchema \<Rightarrow> error + Domain option" where
  "pb_int_domain column_schema =
     (case dict_get (properties column_schema) ''domain'' of
        PNone \<Rightarrow> Inr None
      | PDict domain \<Rightarrow>
          Inr (Some (IntDomainMsg
            \<lparr>int_domain_name = name column_schema,
             int_domain_min = dict_get domain ''min'',
             int_domain_max = dict_get domain ''max'',
             is_categorical =
               (Tags_CATEGORICAL \<in> set (tags column_schema)
                \<or> StrTag (Tags_value Tags_CATEGORICAL) \<in> set (tags column_schema))\<rparr>))
      | v \<Rightarrow> Inl (AttributeError v))"

definition pb_float_domain :: "ColumnSchema \<Rightarrow> error + Domain option" where
  "pb_float_domain column_schema =
     (case dict_get (properties column_schema) ''domain'' of
        PNone \<Rightarrow> Inr None
      | PDict domain \<Rightarrow>
          Inr (Some (FloatDomainMsg
            \<lparr>float_domain_name = name column_schema,
             float_domain_min = dict_get domain ''min'',
             float_domain_max = dict_get domain ''max''\<rparr>))
      | v \<Rightarrow> Inl (AttributeError v))"

text \<open>numpy's table from the kind character of a dtype to the stem of its name.\<close>

definition kind_to_stem :: "(char, string) dict" where
  "kind_to_stem =
     [(CHR ''u'', ''uint''), (CHR ''i'', ''int''), (CHR ''c'', ''complex''),
      (CHR ''f'', ''float''), (CHR ''b'', ''bool''), (CHR ''V'', ''void''),
      (CHR ''O'', ''object''), (CHR ''M'', ''datetime''), (CHR ''m'', ''timedelta''),
      (CHR ''S'', ''bytes''), (CHR ''U'', ''str'')]"

definition kind_name :: "char \<Rightarrow> error + string" where
  "kind_name k =
     (case dict_lookup kind_to_stem k of None \<Rightarrow> Inl (UnknownKind k) | Some n \<Rightarrow> Inr n)"

definition dtype_name :: "ColumnSchema \<Rightarrow> error + string" where
  "dtype_name column_schema =
     (case dtype column_schema of
        NumpyDtype k \<Rightarrow> kind_name k
      | NumpyScalarType n \<Rightarrow> Inr n
      | DtypeStr s \<Rightarrow> Inr s
      | PyType n \<Rightarrow> Inr n
      | NoDtype \<Rightarrow> Inl (UnsupportedDtype (dtype column_schema)))"

definition DOMAIN_CONSTRUCTORS :: "(FeatureType, ColumnSchema \<Rightarrow> error + Domain option) dict" where
  "DOMAIN_CONSTRUCTORS = [(FeatureType_INT, pb_int_domain), (FeatureType_FLOAT, pb_float_domain)]"

text \<open>
  A domain message built by one of the constructors is always true in \<open>if domain\<close>
  (a dataclass without \<open>__bool__\<close>), so the test is on \<open>None\<close> alone.
\<close>

definition set_feature_domain :: "'b Feature \<Rightarrow> ColumnSchema \<Rightarrow> error + 'b Feature" where
  "set_feature_domain feature column_schema =
     (case dtype_name column_schema of
        Inl e \<Rightarrow> Inl e
      | Inr dname \<Rightarrow>
         (case dict_lookup FEATURE_TYPES dname of
            None \<Rightarrow> Inr feature
          | Some pb_type \<Rightarrow>
              if FeatureType_truthy pb_type then
                (let feature1 = feature\<lparr>ftype := pb_type\<rparr> in
                 case dict_lookup DOMAIN_ATTRS pb_type of
                   None \<Rightarrow> Inl KeyError
                 | Some domain_attr \<Rightarrow>
                    (case dict_lookup DOMAIN_CONSTRUCTORS pb_type of
                       None \<Rightarrow> Inl KeyError
                     | Some domain_fn \<Rightarrow>
                        (case domain_fn column_schema of
                           Inl e \<Rightarrow> Inl e
                         | Inr None \<Rightarrow> Inr feature1
                         | Inr (Some domain) \<Rightarrow>
                             Inr (setattr_domain feature1 domain_attr domain))))
              else Inr feature))"

text \<open>The dictionary that \<open>pb_extra_metadata\<close> builds before it serialises it.\<close>

definition extra_properties :: "ColumnSchema \<Rightarrow> pydict" where
  "extra_properties column_schema =
     dict_setitem
       (dict_setitem (filter (\<lambda>(k, v). k \<noteq> ''domain'') (properties column_schema))
          ''is_list'' (PBool (is_list column_schema)))
       ''is_ragged'' (PBool (is_ragged column_schema))"

text \<open>
  The serialisation of the dictionary as a protobuf \<open>Struct\<close> (\<open>ParseDict\<close>, then
  \<open>Pack\<close>) is the library's; it is the parameter \<open>pack\<close>, which gives the error where
  the library raises (\<open>struct_pack\<close> is the library's codec).
\<close>

definition pb_extra_metadata ::
  "(pydict \<Rightarrow> error + 'b) \<Rightarrow> ColumnSchema \<Rightarrow> error + 'b extra_metadata" where
  "pb_extra_metadata pack column_schema =
     (case pack (extra_properties column_schema) of
        Inl e \<Rightarrow> Inl e
      | Inr bytes \<Rightarrow> Inr (Any ''type.googleapis.com/google.protobuf.Struct'' bytes))"

definition pb_tag :: "ColumnSchema \<Rightarrow> string list" where
  "pb_tag column_schema = map Tags_value (tags column_schema)"

text \<open>
  The shape of a list column, from \<open>properties["value_count"]\<close>: the \<open>if\<close> block of
  \<open>pb_feature\<close>.
\<close>

definition pb_feature_shape :: "'b Feature \<Rightarrow> ColumnSchema \<Rightarrow> error + 'b Feature" where
  "pb_feature_shape feature column_schema =
     (case (case dict_lookup (properties column_schema) ''value_count'' of
              None \<Rightarrow> PDict [] | Some v \<Rightarrow> v) of
        PDict vcount \<Rightarrow>
          (let min_length = dict_get vcount ''min'';
               max_length = dict_get vcount ''max''
           in if truthy min_length \<and> truthy max_length \<and> py_eq min_length max_length then
                Inr (feature\<lparr>shape := Some \<lparr>dim = min_length\<rparr>, value_count := None\<rparr>)
              else if truthy min_length \<and> truthy max_length then
                (case py_lt min_length max_length of
                   Inl e \<Rightarrow> Inl e
                 | Inr True \<Rightarrow>
                     Inr (feature\<lparr>value_count :=
                            Some \<lparr>value_count_min = min_length, value_count_max = max_length\<rparr>,
                          shape := None\<rparr>)
                 | Inr False \<Rightarrow>
                     Inr (feature\<lparr>value_count :=
                            Some \<lparr>value_count_min = PInt 0, value_count_max = PInt 0\<rparr>,
                          shape := None\<rparr>))
              else
                Inr (feature\<lparr>value_count :=
                       Some \<lparr>value_count_min = PInt 0, value_count_max = PInt 0\<rparr>,
                     shape := None\<rparr>))
      | v \<Rightarrow> Inl (AttributeError v))"

definition pb_feature ::
  "(pydict \<Rightarrow> error + 'b) \<Rightarrow> ColumnSchema \<Rightarrow> error + 'b Feature" where
  "pb_feature pack column_schema =
     (case set_feature_domain (Feature (name column_schema)) column_schema of
        Inl e \<Rightarrow> Inl e
      | Inr feature1 \<Rightarrow>
         (case (if is_list column_schema then pb_feature_shape feature1 column_schema
                else Inr feature1) of
            Inl e \<Rightarrow> Inl e
          | Inr feature2 \<Rightarrow>
             (let tags0 = pb_tag column_schema
              in case pb_extra_metadata pack column_schema of
                   Inl e \<Rightarrow> Inl e
                 | Inr extra \<Rightarrow>
                     Inr (feature2\<lparr>annotation := \<lparr>tag = tags0, extra_metadata = extra\<rparr>\<rparr>))))"

text \<open>The loop of \<open>from_merlin_schema\<close> over the columns, appending to \<open>features\<close>.\<close>

fun from_merlin_schema_loop ::
  "(pydict \<Rightarrow> error + 'b) \<Rightarrow> (string \<times> ColumnSchema) list \<Rightarrow> 'b Feature list
     \<Rightarrow> error + 'b Feature list" where
  "from_merlin_schema_loop pack [] features = Inr features"
| "from_merlin_schema_loop pack ((col_name, col_schema) # rest) features =
     (case pb_feature pack col_schema of
        Inl e \<Rightarrow> Inl e
      | Inr feature \<Rightarrow> from_merlin_schema_loop pack rest (features @ [feature]))"

definition from_merlin_schema ::
  "(pydict \<Rightarrow> error + 'b) \<Rightarrow> MerlinSchema \<Rightarrow> error + 'b ProtoSchema" where
  "from_merlin_schema pack schema = from_merlin_schema_loop pack schema []"

section \<open>From the external to the internal schema\<close>

text \<open>\<open>getattr(feature, attr)\<close> for the two domain fields, when the field is set.\<close>

definition getattr_domain :: "'b Feature \<Rightarrow> string \<Rightarrow> Domain option" where
  "getattr_domain f attr =
     (if attr = ''int_domain'' then map_option IntDomainMsg (int_domain f)
      else if attr = ''float_domain'' then map_option FloatDomainMsg (float_domain f)
      else None)"

fun domain_min :: "Domain \<Rightarrow> pyval" where
  "domain_min (IntDomainMsg d) = int_domain_min d"
| "domain_min (FloatDomainMsg d) = float_domain_min d"

fun domain_max :: "Domain \<Rightarrow> pyval" where
  "domain_max (IntDomainMsg d) = int_domain_max d"
| "domain_max (FloatDomainMsg d) = float_domain_max d"

text \<open>Both domain messages have the attributes \<open>min\<close> and \<open>max\<close>.\<close>

definition merlin_domain :: "'b Feature \<Rightarrow> pydict" where
  "merlin_domain feature =
     (case dict_lookup DOMAIN_ATTRS (ftype feature) of
        None \<Rightarrow> []
      | Some domain_attr \<Rightarrow>
          if domain_attr \<noteq> [] \<and> has_field feature domain_attr then
            (case getattr_domain feature domain_attr of
               None \<Rightarrow> []
             | Some domain_value \<Rightarrow>
                 dict_setitem (dict_setitem [] ''min'' (domain_min domain_value))
                   ''max'' (domain_max domain_value))
          else [])"

text \<open>
  The variable \<open>properties\<close> of \<open>merlin_properties\<close> and \<open>merlin_column\<close> is a reference
  to a dictionary object, and both functions update that object in place. It is either a
  dictionary made by the call itself (\<open>Fresh\<close>, with its contents), or, on the path of
  one untyped entry, the very object \<open>feature.annotation.extra_metadata[0].value\<close> of
  the input (\<open>EntryValue0\<close>). The feature is the store: an update through \<open>EntryValue0\<close>
  changes the feature.
\<close>

datatype dict_ref = Fresh pydict | EntryValue0

fun ref_load :: "'b Feature \<Rightarrow> dict_ref \<Rightarrow> pydict" where
  "ref_load feature (Fresh d) = d"
| "ref_load feature EntryValue0 =
     (case extra_metadata (annotation feature) of
        Entries (e # es) \<Rightarrow> entry_value e
      | _ \<Rightarrow> [])"

fun ref_store :: "'b Feature \<Rightarrow> dict_ref \<Rightarrow> pydict \<Rightarrow> 'b Feature \<times> dict_ref" where
  "ref_store feature (Fresh d0) d = (feature, Fresh d)"
| "ref_store feature EntryValue0 d =
     (case extra_metadata (annotation feature) of
        Entries (e # es) \<Rightarrow>
          (feature\<lparr>annotation := (annotation feature)\<lparr>extra_metadata := Entries (Entry d # es)\<rparr>\<rparr>,
           EntryValue0)
      | _ \<Rightarrow> (feature, EntryValue0))"

text \<open>\<open>properties[k] = v\<close> and \<open>properties.pop(k, default)\<close> through a reference.\<close>

definition ref_setitem :: "'b Feature \<Rightarrow> dict_ref \<Rightarrow> string \<Rightarrow> pyval \<Rightarrow> 'b Feature \<times> dict_ref" where
  "ref_setitem feature r k v = ref_store feature r (dict_setitem (ref_load feature r) k v)"

definition ref_pop ::
  "'b Feature \<Rightarrow> dict_ref \<Rightarrow> string \<Rightarrow> pyval \<Rightarrow> ('b Feature \<times> dict_ref) \<times> pyval" where
  "ref_pop feature r k dflt =
     (case dict_pop (ref_load feature r) k dflt of (d, v) \<Rightarrow> (ref_store feature r d, v))"

text \<open>
  The parsing of the container's value as a protobuf \<open>Struct\<close> (\<open>ParseFromString\<close>, then
  \<open>dict(msg_struct.items())\<close>) is the library's; it is the parameter \<open>parse\<close>, which
  gives \<open>None\<close> where the library raises (\<open>struct_parse\<close> is the library's codec). The result is the feature as the call leaves it
  and the reference that the call returns.
\<close>

definition merlin_properties ::
  "('b \<Rightarrow> pydict option) \<Rightarrow> 'b Feature \<Rightarrow> error + 'b Feature \<times> dict_ref" where
  "merlin_properties parse feature =
     (case (case extra_metadata (annotation feature) of
              Any url v \<Rightarrow>
                (case parse v of
                   None \<Rightarrow> Inl DecodeError
                 | Some msg_struct \<Rightarrow> Inr (Fresh msg_struct))
            | Entries es \<Rightarrow>
                if length es > 1 then Inl (MalformedExtension (fname feature) (length es))
                else if length es = 1 then Inr EntryValue0
                else Inr (Fresh [])) of
        Inl e \<Rightarrow> Inl e
      | Inr props \<Rightarrow>
          (let domain = merlin_domain feature
           in if domain \<noteq> [] then Inr (ref_setitem feature props ''domain'' (PDict domain))
              else Inr (feature, props)))"

text \<open>\<open>numpy.int\<close> and \<open>numpy.float\<close> are the Python classes \<open>int\<close> and \<open>float\<close>.\<close>

definition merlin_dtype :: "'b Feature \<Rightarrow> dtype" where
  "merlin_dtype feature =
     (if ftype feature = FeatureType_INT then PyType ''int''
      else if ftype feature = FeatureType_FLOAT then PyType ''float''
      else NoDtype)"

text \<open>
  The result is the feature as the call leaves it and the new column. The two flags of
  a \<open>ColumnSchema\<close> are booleans in the model: a popped value counts for its truth value.
  The properties of the column are the object behind the reference.
\<close>

definition merlin_column ::
  "('b \<Rightarrow> pydict option) \<Rightarrow> 'b Feature \<Rightarrow> error + 'b Feature \<times> ColumnSchema" where
  "merlin_column parse feature =
     (let name0 = fname feature;
          tags0 = tag (annotation feature)
      in case merlin_properties parse feature of
           Inl e \<Rightarrow> Inl e
         | Inr (feature1, props) \<Rightarrow>
            (let dtype0 = merlin_dtype feature1
             in case ref_pop feature1 props ''is_list'' (PBool False) of
                  ((feature2, props2), is_list0) \<Rightarrow>
                    (case ref_pop feature2 props2 ''is_ragged'' (PBool False) of
                       ((feature3, props3), is_ragged0) \<Rightarrow>
                         Inr (feature3,
                              \<lparr>name = name0, tags = map StrTag tags0,
                               properties = ref_load feature3 props3, dtype = dtype0,
                               is_list = truthy is_list0, is_ragged = truthy is_ragged0\<rparr>))))"

text \<open>
  The loop of \<open>to_merlin_schema\<close> over the features, in wire order. The result is the
  features as the loop leaves them and the schema built.
\<close>

fun to_merlin_schema_loop ::
  "('b \<Rightarrow> pydict option) \<Rightarrow> 'b Feature list \<Rightarrow> MerlinSchema \<Rightarrow> error + 'b Feature list \<times> MerlinSchema" where
  "to_merlin_schema_loop parse [] merlin_schema = Inr ([], merlin_schema)"
| "to_merlin_schema_loop parse (feature # rest) merlin_schema =
     (case merlin_column parse feature of
        Inl e \<Rightarrow> Inl e
      | Inr (feature1, col_schema) \<Rightarrow>
         (case to_merlin_schema_loop parse rest
                 (dict_setitem merlin_schema (name col_schema) col_schema) of
            Inl e \<Rightarrow> Inl e
          | Inr (rest1, merlin_schema1) \<Rightarrow> Inr (feature1 # rest1, merlin_schema1)))"

definition to_merlin_schema ::
  "('b \<Rightarrow> pydict option) \<Rightarrow> 'b ProtoSchema \<Rightarrow> error + 'b ProtoSchema \<times> MerlinSchema" where
  "to_merlin_schema parse proto_schema = to_merlin_schema_loop parse proto_schema []"

section \<open>Families of dtypes and well-formed columns\<close>

text \<open>
  The family of a column: the feature type that \<open>FEATURE_TYPES\<close> gives to the name of
  its dtype, if the dtype has a name and the table knows it. Integer family is
  \<open>Some FeatureType_INT\<close>, float family \<open>Some FeatureType_FLOAT\<close>.
\<close>

definition column_family :: "ColumnSchema \<Rightarrow> FeatureType option" where
  "column_family c =
     (case dtype_name c of Inl e \<Rightarrow> None | Inr n \<Rightarrow> dict_lookup FEATURE_TYPES n)"

fun number_or_None :: "pyval \<Rightarrow> bool" where
  "number_or_None PNone = True"
| "number_or_None (PBool b) = True"
| "number_or_None (PInt i) = True"
| "number_or_None (PFloat r) = True"
| "number_or_None _ = False"

fun dict_or_None :: "pyval \<Rightarrow> bool" where
  "dict_or_None PNone = True"
| "dict_or_None (PDict d) = True"
| "dict_or_None _ = False"

text \<open>
  The data model of the properties: \<open>properties["domain"]\<close>, where the converter reads
  it, is a mapping (or \<open>None\<close>, or absent), and \<open>properties["value_count"]\<close> of a list
  column is a mapping whose \<open>min\<close> and \<open>max\<close>, when present, are numbers (or absent).
\<close>

definition domain_ok :: "ColumnSchema \<Rightarrow> bool" where
  "domain_ok c = dict_or_None (dict_get (properties c) ''domain'')"

definition value_count_ok :: "ColumnSchema \<Rightarrow> bool" where
  "value_count_ok c =
     (case dict_lookup (properties c) ''value_count'' of
        None \<Rightarrow> True
      | Some (PDict vcount) \<Rightarrow>
          number_or_None (dict_get vcount ''min'') \<and> number_or_None (dict_get vcount ''max'')
      | Some v \<Rightarrow> False)"

definition well_formed :: "ColumnSchema \<Rightarrow> bool" where
  "well_formed c =
     ((column_family c = None \<or> domain_ok c) \<and> (\<not> is_list c \<or> value_count_ok c))"

text \<open>The bounds that \<open>pb_feature\<close> reads: \<open>properties.get("value_count", {}).get(k)\<close>.\<close>

definition value_count_bound :: "ColumnSchema \<Rightarrow> string \<Rightarrow> pyval" where
  "value_count_bound c k =
     (case dict_lookup (properties c) ''value_count'' of
        None \<Rightarrow> PNone
      | Some (PDict vcount) \<Rightarrow> dict_get vcount k
      | Some v \<Rightarrow> PNone)"

text \<open>A bound that is present and not zero, with its value.\<close>

definition nonzero :: "pyval \<Rightarrow> bool" where
  "nonzero v = (case py_num v of None \<Rightarrow> False | Some x \<Rightarrow> x \<noteq> 0)"

text \<open>The column that a feature converts to, if it does.\<close>

definition column_of :: "('b \<Rightarrow> pydict option) \<Rightarrow> 'b Feature \<Rightarrow> ColumnSchema option" where
  "column_of parse feature =
     (case merlin_column parse feature of Inl e \<Rightarrow> None | Inr (feature1, c) \<Rightarrow> Some c)"

text \<open>
  An internal schema holds each column under its own name, and a name once (it is a
  dictionary built from the columns).
\<close>

definition schema_ok :: "MerlinSchema \<Rightarrow> bool" where
  "schema_ok schema =
     (distinct (map fst schema) \<and> list_all (\<lambda>(n, c). name c = n) schema)"

text \<open>The properties of the column serialise: packing its extension payload raises nothing.\<close>

definition serialisable :: "(pydict \<Rightarrow> error + 'b) \<Rightarrow> ColumnSchema \<Rightarrow> bool" where
  "serialisable pack c = (case pack (extra_properties c) of Inl e \<Rightarrow> False | Inr b \<Rightarrow> True)"

section \<open>Example inputs\<close>

definition example_column :: ColumnSchema where
  "example_column =
     \<lparr>name = ''a'', tags = [Tags_CATEGORICAL],
      properties =
        [(''domain'', PDict [(''min'', PInt 0), (''max'', PInt 9)]),
         (''value_count'', PDict [(''min'', PInt 3), (''max'', PInt 7)])],
      dtype = NumpyDtype (CHR ''i''), is_list = True, is_ragged = True\<rparr>"

definition zero_min_column :: ColumnSchema where
  "zero_min_column =
     \<lparr>name = ''a'', tags = [],
      properties = [(''value_count'', PDict [(''min'', PInt 0), (''max'', PInt 5)])],
      dtype = DtypeStr ''int'', is_list = True, is_ragged = True\<rparr>"

definition float_column :: ColumnSchema where
  "float_column =
     \<lparr>name = ''price'', tags = [StrTag ''continuous''],
      properties = [(''domain'', PDict [(''min'', PFloat 0), (''max'', PFloat (1 / 2))])],
      dtype = NumpyScalarType ''float'', is_list = False, is_ragged = False\<rparr>"

definition plain_column :: ColumnSchema where
  "plain_column =
     \<lparr>name = ''n'', tags = [], properties = [(''k'', PStr ''v'')],
      dtype = PyType ''int'', is_list = False, is_ragged = False\<rparr>"

definition string_column :: ColumnSchema where
  "string_column =
     \<lparr>name = ''s'', tags = [], properties = [],
      dtype = NumpyDtype (CHR ''U''), is_list = False, is_ragged = False\<rparr>"

definition legacy_feature :: "'b Feature" where
  "legacy_feature =
     \<lparr>fname = ''f'', ftype = FeatureType_TYPE_UNKNOWN, int_domain = None,
      float_domain = None, shape = None, value_count = None,
      annotation =
        \<lparr>tag = [''t''],
         extra_metadata = Entries [Entry [(''is_list'', PBool True), (''k'', PInt 1)]]\<rparr>\<rparr>"

definition duplicate_features :: "'b Feature list" where
  "duplicate_features =
     [(Feature ''x'')\<lparr>annotation := \<lparr>tag = [''first''], extra_metadata = Entries []\<rparr>\<rparr>,
      (Feature ''y'')\<lparr>annotation := \<lparr>tag = [], extra_metadata = Entries []\<rparr>\<rparr>,
      (Feature ''x'')\<lparr>annotation := \<lparr>tag = [''last''], extra_metadata = Entries []\<rparr>\<rparr>]"

definition two_entries_feature :: "'b Feature" where
  "two_entries_feature =
     (Feature ''g'')\<lparr>annotation := \<lparr>tag = [], extra_metadata = Entries [Entry [], Entry []]\<rparr>\<rparr>"

definition example_schema :: MerlinSchema where
  "example_schema = [(''a'', example_column), (''price'', float_column)]"

text \<open>The feature of \<open>example_column\<close> under the Struct codec, and the column it converts back to.\<close>

definition example_feature :: "struct_bytes Feature" where
  "example_feature =
     \<lparr>fname = ''a'', ftype = FeatureType_INT,
      int_domain =
        Some \<lparr>int_domain_name = ''a'', int_domain_min = PInt 0, int_domain_max = PInt 9,
              is_categorical = True\<rparr>,
      float_domain = None, shape = None,
      value_count = Some \<lparr>value_count_min = PInt 3, value_count_max = PInt 7\<rparr>,
      annotation =
        \<lparr>tag = [''categorical''],
         extra_metadata =
           Any ''type.googleapis.com/google.protobuf.Struct''
             (StructBytes
                [(''value_count'', PDict [(''min'', PFloat 3), (''max'', PFloat 7)]),
                 (''is_list'', PBool True), (''is_ragged'', PBool True)])\<rparr>\<rparr>"

definition example_column_back :: ColumnSchema where
  "example_column_back =
     \<lparr>name = ''a'', tags = [StrTag ''categorical''],
      properties =
        [(''value_count'', PDict [(''min'', PFloat 3), (''max'', PFloat 7)]),
         (''domain'', PDict [(''min'', PInt 0), (''max'', PInt 9)])],
      dtype = PyType ''int'', is_list = True, is_ragged = True\<rparr>"

text \<open>A column with an integer property that is too large for a double.\<close>

definition big_column :: ColumnSchema where
  "big_column =
     \<lparr>name = ''n'', tags = [], properties = [(''k'', PInt (2 ^ 1024))],
      dtype = PyType ''int'', is_list = False, is_ragged = False\<rparr>"

text \<open>The definitions that evaluate the model on a concrete input.\<close>

lemmas example_simps =
  example_column_def well_formed_def column_family_def dtype_name_def kind_name_def
  kind_to_stem_def dict_lookup_def dict_get_def FEATURE_TYPES_def domain_ok_def
  value_count_ok_def value_count_bound_def nonzero_def

lemmas eval_simps =
  pb_feature_def set_feature_domain_def dtype_name_def kind_name_def kind_to_stem_def
  dict_lookup_def dict_get_def FEATURE_TYPES_def DOMAIN_ATTRS_def DOMAIN_CONSTRUCTORS_def
  pb_int_domain_def pb_float_domain_def pb_feature_shape_def Feature_def pb_tag_def
  pb_extra_metadata_def extra_properties_def dict_setitem_def Tags_CATEGORICAL_def Let_def
  struct_pack_def float_of_int_def serialisable_def

lemmas example_columns =
  float_column_def plain_column_def string_column_def

lemmas reverse_simps =
  to_merlin_schema_def merlin_column_def merlin_properties_def merlin_domain_def
  merlin_dtype_def ref_pop_def ref_setitem_def dict_pop_def dict_setitem_def
  dict_lookup_def DOMAIN_ATTRS_def has_field_def getattr_domain_def Feature_def
  column_of_def Let_def

section \<open>The type, domain and shape of a feature\<close>

lemma column_family_cases:
  "column_family c = Some T \<Longrightarrow> T = FeatureType_INT \<or> T = FeatureType_FLOAT"
  by (auto simp: column_family_def dict_lookup_def FEATURE_TYPES_def split: sum.splits if_splits)

lemma set_feature_domain_untyped:
  "dtype_name c = Inr n \<Longrightarrow> dict_lookup FEATURE_TYPES n = None \<Longrightarrow> set_feature_domain f c = Inr f"
  by (simp add: set_feature_domain_def)

lemma set_feature_domain_int:
  assumes "column_family c = Some FeatureType_INT"
  shows "set_feature_domain f c =
     (case pb_int_domain c of
        Inl e \<Rightarrow> Inl e
      | Inr None \<Rightarrow> Inr (f\<lparr>ftype := FeatureType_INT\<rparr>)
      | Inr (Some d) \<Rightarrow> Inr (setattr_domain (f\<lparr>ftype := FeatureType_INT\<rparr>) ''int_domain'' d))"
  using assms
  by (auto simp: column_family_def set_feature_domain_def dict_lookup_def
      DOMAIN_ATTRS_def DOMAIN_CONSTRUCTORS_def split: sum.splits option.splits)

lemma set_feature_domain_float:
  assumes "column_family c = Some FeatureType_FLOAT"
  shows "set_feature_domain f c =
     (case pb_float_domain c of
        Inl e \<Rightarrow> Inl e
      | Inr None \<Rightarrow> Inr (f\<lparr>ftype := FeatureType_FLOAT\<rparr>)
      | Inr (Some d) \<Rightarrow> Inr (setattr_domain (f\<lparr>ftype := FeatureType_FLOAT\<rparr>) ''float_domain'' d))"
  using assms
  by (auto simp: column_family_def set_feature_domain_def dict_lookup_def
      DOMAIN_ATTRS_def DOMAIN_CONSTRUCTORS_def split: sum.splits option.splits)

lemma truthy_number: "number_or_None a \<Longrightarrow> truthy a = nonzero a"
  by (cases a) (auto simp: nonzero_def)

lemma py_eq_number:
  "nonzero a \<Longrightarrow> nonzero b \<Longrightarrow> py_eq a b = (py_num a = py_num b)"
  by (cases a; cases b) (auto simp: nonzero_def)

lemma py_lt_number:
  "nonzero a \<Longrightarrow> nonzero b \<Longrightarrow> py_lt a b = Inr (the (py_num a) < the (py_num b))"
  by (cases a; cases b) (auto simp: nonzero_def)

lemma pb_feature_shape_bounds:
  assumes "value_count_ok c"
  shows "pb_feature_shape f c =
     (let mn = value_count_bound c ''min''; mx = value_count_bound c ''max''
      in if truthy mn \<and> truthy mx \<and> py_eq mn mx then
           Inr (f\<lparr>shape := Some \<lparr>dim = mn\<rparr>, value_count := None\<rparr>)
         else if truthy mn \<and> truthy mx then
           (case py_lt mn mx of
              Inl e \<Rightarrow> Inl e
            | Inr True \<Rightarrow> Inr (f\<lparr>value_count := Some \<lparr>value_count_min = mn, value_count_max = mx\<rparr>, shape := None\<rparr>)
            | Inr False \<Rightarrow> Inr (f\<lparr>value_count := Some \<lparr>value_count_min = PInt 0, value_count_max = PInt 0\<rparr>, shape := None\<rparr>))
         else Inr (f\<lparr>value_count := Some \<lparr>value_count_min = PInt 0, value_count_max = PInt 0\<rparr>, shape := None\<rparr>))"
proof (cases "dict_lookup (properties c) ''value_count''")
  case None
  then show ?thesis
    by (simp add: pb_feature_shape_def value_count_bound_def dict_get_def)
next
  case (Some v)
  with assms obtain vc where "v = PDict vc"
    by (cases v) (auto simp: value_count_ok_def)
  with Some show ?thesis
    by (simp add: pb_feature_shape_def value_count_bound_def)
qed

lemma value_count_bound_number:
  "value_count_ok c \<Longrightarrow> k = ''min'' \<or> k = ''max'' \<Longrightarrow> number_or_None (value_count_bound c k)"
  by (auto simp: value_count_ok_def value_count_bound_def split: option.splits pyval.splits)

lemma pb_feature_shape_numeric:
  assumes "value_count_ok c"
  shows "pb_feature_shape f c =
     Inr (let mn = value_count_bound c ''min''; mx = value_count_bound c ''max''
          in if nonzero mn \<and> nonzero mx \<and> py_num mn = py_num mx then
               f\<lparr>shape := Some \<lparr>dim = mn\<rparr>, value_count := None\<rparr>
             else if nonzero mn \<and> nonzero mx \<and> the (py_num mn) < the (py_num mx) then
               f\<lparr>value_count := Some \<lparr>value_count_min = mn, value_count_max = mx\<rparr>, shape := None\<rparr>
             else
               f\<lparr>value_count := Some \<lparr>value_count_min = PInt 0, value_count_max = PInt 0\<rparr>, shape := None\<rparr>)"
proof -
  have mn: "truthy (value_count_bound c ''min'') = nonzero (value_count_bound c ''min'')"
    using assms by (simp add: truthy_number value_count_bound_number)
  have mx: "truthy (value_count_bound c ''max'') = nonzero (value_count_bound c ''max'')"
    using assms by (simp add: truthy_number value_count_bound_number)
  show ?thesis
    unfolding pb_feature_shape_bounds [OF assms] Let_def mn mx
    by (auto simp: py_eq_number py_lt_number)
qed

lemma pb_feature_shape_fields:
  "pb_feature_shape f c = Inr f' \<Longrightarrow>
     fname f' = fname f \<and> ftype f' = ftype f \<and> int_domain f' = int_domain f
     \<and> float_domain f' = float_domain f \<and> annotation f' = annotation f"
  by (auto simp: pb_feature_shape_def Let_def
        split: option.splits pyval.splits sum.splits bool.splits if_splits)

lemma setattr_domain_fields [simp]:
  "fname (setattr_domain f a d) = fname f"
  "ftype (setattr_domain f a d) = ftype f"
  "shape (setattr_domain f a d) = shape f"
  "value_count (setattr_domain f a d) = value_count f"
  "annotation (setattr_domain f a d) = annotation f"
  by (cases d; simp)+

lemma set_feature_domain_name:
  "set_feature_domain f c = Inr f1 \<Longrightarrow> fname f1 = fname f"
  by (auto simp: set_feature_domain_def Let_def split: sum.splits option.splits if_splits)

lemma pb_feature_ok:
  fixes pack :: "pydict \<Rightarrow> error + 'b"
  assumes "set_feature_domain (Feature (name c)) c = Inr (f1 :: 'b Feature)"
    and "\<not> is_list c \<or> value_count_ok c"
    and "pack (extra_properties c) = Inr b"
  shows "\<exists>f. pb_feature pack c = Inr f \<and> fname f = name c \<and> ftype f = ftype f1
      \<and> int_domain f = int_domain f1 \<and> float_domain f = float_domain f1
      \<and> annotation f =
          \<lparr>tag = pb_tag c,
           extra_metadata = Any ''type.googleapis.com/google.protobuf.Struct'' b\<rparr>"
proof -
  have n: "fname f1 = name c"
    using set_feature_domain_name [OF assms(1)] by (simp add: Feature_def)
  show ?thesis
  proof (cases "is_list c")
    case False
    with assms(1,3) n show ?thesis
      by (simp add: pb_feature_def pb_extra_metadata_def)
  next
    case True
    with assms(2) have "value_count_ok c" by simp
    then obtain f2 where f2: "pb_feature_shape f1 c = Inr f2"
      by (simp add: pb_feature_shape_numeric)
    from pb_feature_shape_fields [OF f2] True assms(1,3) n f2 show ?thesis
      by (simp add: pb_feature_def pb_extra_metadata_def)
  qed
qed

lemma pb_feature_Inr:
  fixes pack :: "pydict \<Rightarrow> error + 'b"
  assumes "pb_feature pack c = Inr f"
  shows "\<exists>f1 :: 'b Feature. set_feature_domain (Feature (name c)) c = Inr f1
     \<and> ftype f = ftype f1 \<and> int_domain f = int_domain f1 \<and> float_domain f = float_domain f1"
    and "fname f = name c"
    and "\<exists>b. pack (extra_properties c) = Inr b
     \<and> annotation f =
         \<lparr>tag = pb_tag c,
          extra_metadata = Any ''type.googleapis.com/google.protobuf.Struct'' b\<rparr>"
proof -
  from assms obtain f1 :: "'b Feature" and f2 b where
    f1: "set_feature_domain (Feature (name c)) c = Inr f1" and
    f2: "(if is_list c then pb_feature_shape f1 c else Inr f1) = Inr f2" and
    b: "pack (extra_properties c) = Inr b" and
    f: "f = f2\<lparr>annotation :=
           \<lparr>tag = pb_tag c,
            extra_metadata = Any ''type.googleapis.com/google.protobuf.Struct'' b\<rparr>\<rparr>"
    by (auto simp: pb_feature_def pb_extra_metadata_def Let_def split: sum.splits)
  have n: "fname f1 = name c"
    using set_feature_domain_name [OF f1] by (simp add: Feature_def)
  have same: "fname f2 = fname f1 \<and> ftype f2 = ftype f1 \<and> int_domain f2 = int_domain f1
      \<and> float_domain f2 = float_domain f1"
  proof (cases "is_list c")
    case True
    with f2 have "pb_feature_shape f1 c = Inr f2" by simp
    from pb_feature_shape_fields [OF this] show ?thesis by simp
  next
    case False
    with f2 show ?thesis by simp
  qed
  from f1 same f show "\<exists>f1 :: 'b Feature. set_feature_domain (Feature (name c)) c = Inr f1
     \<and> ftype f = ftype f1 \<and> int_domain f = int_domain f1 \<and> float_domain f = float_domain f1"
    by auto
  from n same f show "fname f = name c" by simp
  from b f show "\<exists>b. pack (extra_properties c) = Inr b
     \<and> annotation f =
         \<lparr>tag = pb_tag c,
          extra_metadata = Any ''type.googleapis.com/google.protobuf.Struct'' b\<rparr>"
    by simp
qed

lemma serialisableE:
  assumes "serialisable pack c"
  obtains b where "pack (extra_properties c) = Inr b"
  using assms by (auto simp: serialisable_def split: sum.splits)

lemma pb_feature_returns:
  fixes pack :: "pydict \<Rightarrow> error + 'b"
  assumes "set_feature_domain (Feature (name c)) c = Inr (f1 :: 'b Feature)"
    and "(\<not> is_list c \<or> value_count_ok c) \<and> serialisable pack c"
  shows "\<exists>f. pb_feature pack c = Inr f"
proof -
  from assms(2) obtain b where b: "pack (extra_properties c) = Inr b"
    by (auto elim: serialisableE)
  from assms(2) have vc: "\<not> is_list c \<or> value_count_ok c"
    by simp
  from pb_feature_ok [where pack = pack, OF assms(1) vc b] show ?thesis
    by blast
qed

lemma pb_feature_domains:
  fixes pack :: "pydict \<Rightarrow> error + 'b"
  assumes "pb_feature pack c = Inr f"
    and "set_feature_domain (Feature (name c)) c = Inr (f1 :: 'b Feature)"
  shows "ftype f = ftype f1 \<and> int_domain f = int_domain f1 \<and> float_domain f = float_domain f1"
  using pb_feature_Inr(1) [OF assms(1)] assms(2) by auto

lemma set_feature_domain_total:
  assumes "dtype_name c = Inr n" and "column_family c = None \<or> domain_ok c"
  shows "\<exists>f1. set_feature_domain f c = Inr f1"
proof (cases "column_family c")
  case None
  with assms(1) show ?thesis
    by (simp add: column_family_def set_feature_domain_untyped)
next
  case (Some T)
  with assms(2) have d: "dict_or_None (dict_get (properties c) ''domain'')"
    by (simp add: domain_ok_def)
  from column_family_cases [OF Some] show ?thesis
  proof
    assume "T = FeatureType_INT"
    with Some d show ?thesis
      by (cases "dict_get (properties c) ''domain''")
         (simp_all add: set_feature_domain_int pb_int_domain_def)
  next
    assume "T = FeatureType_FLOAT"
    with Some d show ?thesis
      by (cases "dict_get (properties c) ''domain''")
         (simp_all add: set_feature_domain_float pb_float_domain_def)
  qed
qed

text \<open>
  C4, as amended. For every list column whose dtype has a name, whose properties are
  well formed (the domain of a typed column a mapping, \<open>None\<close> or absent, the value count
  absent or a mapping whose \<open>min\<close> and \<open>max\<close> are numbers, \<open>None\<close> or absent) and serialise,
  \<open>pb_feature\<close> raises nothing, and with \<open>min\<close> and \<open>max\<close> the bounds of
  \<open>properties["value_count"]\<close>: if both are present, not zero and equal, the feature
  gets the fixed shape of that length; if both are present, not zero and \<open>min < max\<close>, it
  gets the value count \<open>{min, max}\<close>; otherwise (one is absent or zero, or \<open>max < min\<close>)
  it gets the value count \<open>{0, 0}\<close>.
\<close>

theorem value_count_mapping:
  fixes pack :: "pydict \<Rightarrow> error + 'b"
  assumes "is_list c" and "well_formed c" and "dtype_name c = Inr n"
    and "serialisable pack c"
  shows "\<exists>f. pb_feature pack c = Inr f \<and>
     (let mn = value_count_bound c ''min''; mx = value_count_bound c ''max''
      in if nonzero mn \<and> nonzero mx \<and> py_num mn = py_num mx then
           shape f = Some \<lparr>dim = mn\<rparr> \<and> value_count f = None
         else if nonzero mn \<and> nonzero mx \<and> the (py_num mn) < the (py_num mx) then
           value_count f = Some \<lparr>value_count_min = mn, value_count_max = mx\<rparr> \<and> shape f = None
         else
           value_count f = Some \<lparr>value_count_min = PInt 0, value_count_max = PInt 0\<rparr>
           \<and> shape f = None)"
proof -
  from assms have vc: "value_count_ok c" and dom: "column_family c = None \<or> domain_ok c"
    by (auto simp: well_formed_def)
  from set_feature_domain_total [OF assms(3) dom]
  obtain f1 :: "'b Feature" where f1: "set_feature_domain (Feature (name c)) c = Inr f1"
    by blast
  from assms(4) obtain b where b: "pack (extra_properties c) = Inr b"
    by (rule serialisableE)
  show ?thesis
    using assms(1) f1 b
    by (simp add: pb_feature_def pb_extra_metadata_def pb_feature_shape_numeric [OF vc] Let_def)
qed

theorem value_count_mapping_witness:
  "is_list example_column \<and> well_formed example_column
   \<and> dtype_name example_column = Inr ''int''
   \<and> serialisable struct_pack example_column
   \<and> (\<exists>f. pb_feature struct_pack example_column = Inr f
        \<and> value_count f = Some \<lparr>value_count_min = PInt 3, value_count_max = PInt 7\<rparr>
        \<and> shape f = None)"
proof -
  have h1: "is_list example_column"
    by (simp add: example_column_def)
  have h2: "well_formed example_column"
    by (simp add: example_simps)
  have h3: "dtype_name example_column = Inr ''int''"
    by (simp add: example_simps)
  have h4: "serialisable struct_pack example_column"
    by (simp add: example_column_def eval_simps)
  have b: "value_count_bound example_column ''min'' = PInt 3"
    "value_count_bound example_column ''max'' = PInt 7"
    by (simp_all add: example_simps)
  from value_count_mapping [OF h1 h2 h3 h4] h1 h2 h3 h4 show ?thesis
    by (simp add: b nonzero_def)
qed

text \<open>
  C4 as stated fails: the bounds \<open>{min: 0, max: 5}\<close> are both present with \<open>min < max\<close>,
  and the feature gets the value count \<open>{0, 0}\<close>, not \<open>{0, 5}\<close>.
\<close>

theorem zero_min_is_sentinel:
  "pb_feature struct_pack zero_min_column =
     Inr \<lparr>fname = ''a'', ftype = FeatureType_INT, int_domain = None, float_domain = None,
          shape = None,
          value_count = Some \<lparr>value_count_min = PInt 0, value_count_max = PInt 0\<rparr>,
          annotation =
            \<lparr>tag = [],
             extra_metadata =
               Any ''type.googleapis.com/google.protobuf.Struct''
                 (StructBytes
                    [(''value_count'', PDict [(''min'', PFloat 0), (''max'', PFloat 5)]),
                     (''is_list'', PBool True), (''is_ragged'', PBool True)])\<rparr>\<rparr>"
  by (simp add: zero_min_column_def eval_simps)

lemma set_feature_domain_int_dict:
  assumes "column_family c = Some FeatureType_INT"
    and "dict_lookup (properties c) ''domain'' = Some (PDict d)"
  shows "set_feature_domain f c =
     Inr (f\<lparr>ftype := FeatureType_INT,
            int_domain := Some
              \<lparr>int_domain_name = name c, int_domain_min = dict_get d ''min'',
               int_domain_max = dict_get d ''max'',
               is_categorical =
                 (Tags_CATEGORICAL \<in> set (tags c)
                  \<or> StrTag (Tags_value Tags_CATEGORICAL) \<in> set (tags c))\<rparr>,
            float_domain := None\<rparr>)"
  using assms(2)
  by (simp add: set_feature_domain_int [OF assms(1)] pb_int_domain_def dict_get_def
      dict_lookup_def)



text \<open>
  C5. For every column of the integer family whose \<open>properties["domain"]\<close> is a mapping,
  every feature that \<open>pb_feature\<close> emits has an \<open>int_domain\<close> with the column's name and
  the bounds of the mapping, and its \<open>is_categorical\<close> is true if and only if the tags of
  the column contain \<open>CATEGORICAL\<close>, as the member of the enumeration or as its string
  value. The feature is emitted whenever the value count of a list column is well formed
  and the properties serialise.
\<close>

theorem categorical_flag:
  fixes pack :: "pydict \<Rightarrow> error + 'b"
  assumes "column_family c = Some FeatureType_INT"
    and "dict_lookup (properties c) ''domain'' = Some (PDict d)"
  shows "(\<forall>f. pb_feature pack c = Inr f \<longrightarrow>
            (\<exists>dom. int_domain f = Some dom \<and> int_domain_name dom = name c
               \<and> int_domain_min dom = dict_get d ''min''
               \<and> int_domain_max dom = dict_get d ''max''
               \<and> (is_categorical dom \<longleftrightarrow>
                    Tags_CATEGORICAL \<in> set (tags c)
                    \<or> StrTag (Tags_value Tags_CATEGORICAL) \<in> set (tags c))))
       \<and> ((\<not> is_list c \<or> value_count_ok c) \<and> serialisable pack c
            \<longrightarrow> (\<exists>f. pb_feature pack c = Inr f))"
proof (intro conjI allI impI)
  fix f
  assume "pb_feature pack c = Inr f"
  from pb_feature_domains [OF this set_feature_domain_int_dict [OF assms]]
  show "\<exists>dom. int_domain f = Some dom \<and> int_domain_name dom = name c
      \<and> int_domain_min dom = dict_get d ''min''
      \<and> int_domain_max dom = dict_get d ''max''
      \<and> (is_categorical dom \<longleftrightarrow>
           Tags_CATEGORICAL \<in> set (tags c)
           \<or> StrTag (Tags_value Tags_CATEGORICAL) \<in> set (tags c))"
    by simp
next
  assume "(\<not> is_list c \<or> value_count_ok c) \<and> serialisable pack c"
  from pb_feature_returns [OF set_feature_domain_int_dict [OF assms] this]
  show "\<exists>f. pb_feature pack c = Inr f" .
qed

theorem categorical_flag_witness:
  "column_family example_column = Some FeatureType_INT
   \<and> dict_lookup (properties example_column) ''domain''
       = Some (PDict [(''min'', PInt 0), (''max'', PInt 9)])
   \<and> (\<exists>f dom. pb_feature struct_pack example_column = Inr f \<and> int_domain f = Some dom
         \<and> is_categorical dom)"
proof -
  have h1: "column_family example_column = Some FeatureType_INT"
    by (simp add: example_simps)
  have h2: "dict_lookup (properties example_column) ''domain''
       = Some (PDict [(''min'', PInt 0), (''max'', PInt 9)])"
    by (simp add: example_simps)
  have h3: "(\<not> is_list example_column \<or> value_count_ok example_column)
      \<and> serialisable struct_pack example_column"
    by (simp add: example_column_def eval_simps value_count_ok_def)
  have t: "Tags_CATEGORICAL \<in> set (tags example_column)"
    by (simp add: example_column_def)
  from categorical_flag [OF h1 h2, of struct_pack] h3
  obtain f where f: "pb_feature struct_pack example_column = Inr f"
    by blast
  with categorical_flag [OF h1 h2, of struct_pack] t
  have "\<exists>dom. int_domain f = Some dom \<and> is_categorical dom"
    by blast
  with f h1 h2 show ?thesis
    by blast
qed



lemma from_merlin_schema_loop_fails:
  "(n, c) \<in> set s \<Longrightarrow> pb_feature pack c = Inl e
     \<Longrightarrow> \<exists>e'. from_merlin_schema_loop pack s acc = Inl e'"
  by (induction s arbitrary: acc) (auto split: sum.splits)

text \<open>
  C2, as amended. For every column whose dtype has no name at all (it has none of the
  attributes \<open>kind\<close>, \<open>item\<close>, \<open>__name__\<close> and is not a string), \<open>pb_feature\<close> raises
  the unsupported-dtype error, and \<open>from_merlin_schema\<close> fails on every schema that holds
  the column. A column whose dtype has a name that is none of \<open>int\<close>, \<open>uint\<close>, \<open>float\<close>
  raises no such error: the type and domain step returns the feature as it is, every
  feature that \<open>pb_feature\<close> emits has the type left undefined and no domain, and the
  feature is emitted whenever the value count of a list column is well formed and the
  properties serialise.
\<close>

theorem unnamed_dtype_raises:
  fixes pack :: "pydict \<Rightarrow> error + 'b"
  shows "(dtype c = NoDtype
          \<longrightarrow> pb_feature pack c = Inl (UnsupportedDtype NoDtype)
              \<and> (\<forall>s n. (n, c) \<in> set s \<longrightarrow> (\<exists>e. from_merlin_schema pack s = Inl e)))
       \<and> (dtype_name c = Inr dname \<and> dict_lookup FEATURE_TYPES dname = None
          \<longrightarrow> set_feature_domain (Feature (name c) :: 'b Feature) c = Inr (Feature (name c))
              \<and> (\<forall>f. pb_feature pack c = Inr f \<longrightarrow>
                    ftype f = FeatureType_TYPE_UNKNOWN
                    \<and> int_domain f = None \<and> float_domain f = None)
              \<and> ((\<not> is_list c \<or> value_count_ok c) \<and> serialisable pack c
                   \<longrightarrow> (\<exists>f. pb_feature pack c = Inr f)))"
proof (rule conjI; rule impI)
  assume d: "dtype c = NoDtype"
  then have e: "pb_feature pack c = Inl (UnsupportedDtype NoDtype)"
    by (simp add: pb_feature_def set_feature_domain_def dtype_name_def)
  have "\<exists>e. from_merlin_schema pack s = Inl e" if "(n, c) \<in> set s" for s :: MerlinSchema and n
    using from_merlin_schema_loop_fails [OF that e]
    by (simp add: from_merlin_schema_def)
  with e show "pb_feature pack c = Inl (UnsupportedDtype NoDtype)
      \<and> (\<forall>s n. (n, c) \<in> set s \<longrightarrow> (\<exists>e. from_merlin_schema pack s = Inl e))"
    by blast
next
  assume "dtype_name c = Inr dname \<and> dict_lookup FEATURE_TYPES dname = None"
  then have s: "set_feature_domain (Feature (name c) :: 'b Feature) c = Inr (Feature (name c))"
    by (simp add: set_feature_domain_untyped)
  have d: "ftype f = FeatureType_TYPE_UNKNOWN \<and> int_domain f = None \<and> float_domain f = None"
    if "pb_feature pack c = Inr f" for f
    using pb_feature_domains [OF that s] by (simp add: Feature_def)
  from s d pb_feature_returns [OF s]
  show "set_feature_domain (Feature (name c) :: 'b Feature) c = Inr (Feature (name c))
      \<and> (\<forall>f. pb_feature pack c = Inr f \<longrightarrow>
            ftype f = FeatureType_TYPE_UNKNOWN
            \<and> int_domain f = None \<and> float_domain f = None)
      \<and> ((\<not> is_list c \<or> value_count_ok c) \<and> serialisable pack c
           \<longrightarrow> (\<exists>f. pb_feature pack c = Inr f))"
    by blast
qed

theorem unnamed_dtype_raises_witness:
  "pb_feature struct_pack (plain_column\<lparr>dtype := NoDtype\<rparr>) = Inl (UnsupportedDtype NoDtype)
   \<and> (\<exists>e. from_merlin_schema struct_pack [(''n'', plain_column\<lparr>dtype := NoDtype\<rparr>)] = Inl e)
   \<and> (\<exists>f. pb_feature struct_pack string_column = Inr f \<and> ftype f = FeatureType_TYPE_UNKNOWN
        \<and> int_domain f = None \<and> float_domain f = None)"
proof -
  have s: "dtype_name string_column = Inr ''str''
      \<and> dict_lookup FEATURE_TYPES ''str'' = None"
    by (simp add: example_columns example_simps)
  have s': "(\<not> is_list string_column \<or> value_count_ok string_column)
      \<and> serialisable struct_pack string_column"
    by (simp add: example_columns eval_simps)
  have d: "dtype (plain_column\<lparr>dtype := NoDtype\<rparr>) = NoDtype"
    by simp
  have m: "(''n'', plain_column\<lparr>dtype := NoDtype\<rparr>) \<in> set [(''n'', plain_column\<lparr>dtype := NoDtype\<rparr>)]"
    by simp
  from unnamed_dtype_raises [of "plain_column\<lparr>dtype := NoDtype\<rparr>" struct_pack] d m
  have 1: "pb_feature struct_pack (plain_column\<lparr>dtype := NoDtype\<rparr>) = Inl (UnsupportedDtype NoDtype)
      \<and> (\<exists>e. from_merlin_schema struct_pack [(''n'', plain_column\<lparr>dtype := NoDtype\<rparr>)] = Inl e)"
    by blast
  from unnamed_dtype_raises [of string_column struct_pack "''str''"] s s'
  have 2: "\<exists>f. pb_feature struct_pack string_column = Inr f \<and> ftype f = FeatureType_TYPE_UNKNOWN
        \<and> int_domain f = None \<and> float_domain f = None"
    by blast
  from 1 2 show ?thesis by blast
qed

text \<open>
  C2 as stated fails: a column whose dtype is a numpy string dtype is of neither family,
  and \<open>from_merlin_schema\<close> returns its feature, untyped, without an error.
\<close>

theorem string_column_not_an_error:
  "from_merlin_schema struct_pack [(''s'', string_column)] =
     Inr [\<lparr>fname = ''s'', ftype = FeatureType_TYPE_UNKNOWN, int_domain = None,
           float_domain = None, shape = None, value_count = None,
           annotation =
             \<lparr>tag = [],
              extra_metadata =
                Any ''type.googleapis.com/google.protobuf.Struct''
                  (StructBytes [(''is_list'', PBool False), (''is_ragged'', PBool False)])\<rparr>\<rparr>]"
  by (simp add: from_merlin_schema_def string_column_def eval_simps)

text \<open>
  The serialisation can fail: an integer property that is too large for a double raises
  \<open>OverflowError\<close>, whatever the dtype and the domain.
\<close>

lemma big_column_overflows:
  "pb_feature struct_pack big_column = Inl OverflowError"
  by (simp add: big_column_def eval_simps)

section \<open>Empty schemas\<close>

text \<open>
  C9. Converting an internal schema with no columns gives an external schema with no
  features, and converting an external schema with no features gives an internal schema
  with no columns (and leaves the empty input as it is).
\<close>

theorem empty_schema:
  "from_merlin_schema pack [] = Inr [] \<and> to_merlin_schema parse [] = Inr ([], [])"
  by (simp add: from_merlin_schema_def to_merlin_schema_def)

section \<open>Untyped entries, duplicate names and the input of the reverse direction\<close>

lemma merlin_column_name:
  "merlin_column parse f = Inr (f1, c) \<Longrightarrow> name c = fname f"
  by (auto simp: merlin_column_def Let_def split: sum.splits prod.splits)

lemma to_merlin_schema_loop_append:
  "to_merlin_schema_loop parse (fs1 @ fs2) sch =
     (case to_merlin_schema_loop parse fs1 sch of
        Inl e \<Rightarrow> Inl e
      | Inr (fs1', sch1) \<Rightarrow>
         (case to_merlin_schema_loop parse fs2 sch1 of
            Inl e \<Rightarrow> Inl e
          | Inr (fs2', sch2) \<Rightarrow> Inr (fs1' @ fs2', sch2)))"
  by (induction fs1 arbitrary: sch) (auto split: sum.splits prod.splits)

lemma to_merlin_schema_loop_total:
  "\<forall>f\<in>set fs. column_of parse f \<noteq> None
     \<Longrightarrow> \<exists>fs' sch'. to_merlin_schema_loop parse fs sch = Inr (fs', sch')"
proof (induction fs arbitrary: sch)
  case Nil
  then show ?case by simp
next
  case (Cons f fs)
  from Cons.prems obtain f1 c where c: "merlin_column parse f = Inr (f1, c)"
    by (auto simp: column_of_def split: sum.splits)
  from Cons.prems have "\<forall>g\<in>set fs. column_of parse g \<noteq> None"
    by simp
  from Cons.IH [OF this, of "dict_setitem sch (name c) c"] c show ?case
    by auto
qed

lemma to_merlin_schema_loop_lookup:
  "to_merlin_schema_loop parse fs sch = Inr (fs', sch')
     \<Longrightarrow> dict_lookup sch' n =
          (if n \<in> fname ` set fs then column_of parse (last (filter (\<lambda>f. fname f = n) fs))
           else dict_lookup sch n)"
proof (induction fs arbitrary: sch fs')
  case Nil
  then show ?case by simp
next
  case (Cons f fs)
  from Cons.prems obtain f1 c rest1 where
    c: "merlin_column parse f = Inr (f1, c)" and
    r: "to_merlin_schema_loop parse fs (dict_setitem sch (name c) c) = Inr (rest1, sch')"
    by (auto split: sum.splits prod.splits)
  have nm: "name c = fname f"
    by (rule merlin_column_name [OF c])
  have col: "column_of parse f = Some c"
    using c by (simp add: column_of_def)
  show ?case
  proof (cases "n \<in> fname ` set fs")
    case True
    then have "filter (\<lambda>f. fname f = n) fs \<noteq> []"
      by (auto simp: filter_empty_conv)
    with True Cons.IH [OF r] show ?thesis
      by simp
  next
    case False
    then have "filter (\<lambda>f. fname f = n) fs = []"
      by (auto simp: filter_empty_conv)
    with False Cons.IH [OF r] nm col show ?thesis
      by (auto simp: dict_lookup_def dict_setitem_def update_conv')
  qed
qed

text \<open>
  C8. For every external schema whose features each convert on their own, also one with
  two or more features of the same name, \<open>to_merlin_schema\<close> raises nothing, and the
  schema it builds maps every name of a feature to the column built from the last feature
  of that name in wire order, and no other name.
\<close>

theorem last_feature_wins:
  assumes "\<forall>f\<in>set fs. column_of parse f \<noteq> None"
  shows "\<exists>fs' s. to_merlin_schema parse fs = Inr (fs', s)
     \<and> (\<forall>n. dict_lookup s n =
            (if n \<in> fname ` set fs
             then column_of parse (last (filter (\<lambda>f. fname f = n) fs))
             else None))"
proof -
  from to_merlin_schema_loop_total [OF assms, of "[]"]
  obtain fs' s where l: "to_merlin_schema_loop parse fs [] = Inr (fs', s)"
    by blast
  from to_merlin_schema_loop_lookup [OF l] l show ?thesis
    by (simp add: to_merlin_schema_def dict_lookup_def)
qed

theorem last_feature_wins_witness:
  "list_all (\<lambda>f. column_of Some f \<noteq> None) (duplicate_features :: pydict Feature list)
   \<and> (\<exists>fs' s. to_merlin_schema Some (duplicate_features :: pydict Feature list) = Inr (fs', s)
        \<and> dict_lookup s ''x'' =
            Some \<lparr>name = ''x'', tags = [StrTag ''last''], properties = [], dtype = NoDtype,
                  is_list = False, is_ragged = False\<rparr>)"
proof -
  have h: "\<forall>f\<in>set (duplicate_features :: pydict Feature list). column_of Some f \<noteq> None"
    by (simp add: duplicate_features_def reverse_simps)
  have l: "column_of Some (last (filter (\<lambda>f. fname f = ''x'') (duplicate_features :: pydict Feature list)))
      = Some \<lparr>name = ''x'', tags = [StrTag ''last''], properties = [], dtype = NoDtype,
                  is_list = False, is_ragged = False\<rparr>"
    by (simp add: duplicate_features_def reverse_simps)
  from last_feature_wins [OF h] obtain fs' s where
    "to_merlin_schema Some (duplicate_features :: pydict Feature list) = Inr (fs', s)"
    "\<forall>n. dict_lookup s n =
            (if n \<in> fname ` set (duplicate_features :: pydict Feature list)
             then column_of Some (last (filter (\<lambda>f. fname f = n) duplicate_features))
             else None)"
    by blast
  moreover have "''x'' \<in> fname ` set (duplicate_features :: pydict Feature list)"
    by (simp add: duplicate_features_def Feature_def)
  ultimately show ?thesis using h l by (auto simp: list_all_iff)
qed

text \<open>
  C6 fails on a feature with one untyped entry: \<open>to_merlin_schema\<close> pops \<open>is_list\<close> out
  of the value of the entry of its input, which is not the same feature afterwards.
\<close>

theorem legacy_entry_is_mutated:
  "to_merlin_schema parse [legacy_feature] =
     Inr ([legacy_feature
             \<lparr>annotation := \<lparr>tag = [''t''], extra_metadata = Entries [Entry [(''k'', PInt 1)]]\<rparr>\<rparr>],
          [(''f'', \<lparr>name = ''f'', tags = [StrTag ''t''], properties = [(''k'', PInt 1)],
                   dtype = NoDtype, is_list = True, is_ragged = False\<rparr>)])
   \<and> legacy_feature\<lparr>annotation := \<lparr>tag = [''t''], extra_metadata = Entries [Entry [(''k'', PInt 1)]]\<rparr>\<rparr>
       \<noteq> (legacy_feature :: 'b Feature)"
  by (simp add: legacy_feature_def reverse_simps)

lemma merlin_column_fails:
  "merlin_properties parse f = Inl e \<Longrightarrow> merlin_column parse f = Inl e"
  by (simp add: merlin_column_def)

lemma to_merlin_schema_loop_fails:
  assumes "\<forall>g\<in>set fs1. column_of parse g \<noteq> None" and "merlin_column parse f = Inl e"
  shows "to_merlin_schema_loop parse (fs1 @ f # fs2) sch = Inl e"
proof -
  from to_merlin_schema_loop_total [OF assms(1), of sch]
  obtain fs1' sch1 where "to_merlin_schema_loop parse fs1 sch = Inr (fs1', sch1)"
    by blast
  with assms(2) show ?thesis
    by (simp add: to_merlin_schema_loop_append)
qed

text \<open>
  C3. For every feature whose extension slot is a list of untyped entries: with more than
  one entry, \<open>merlin_column\<close> raises the malformed-extension error with the name of the
  feature and the number of entries, and so does \<open>to_merlin_schema\<close> on every schema
  where the features before it convert; with exactly one entry, the properties are the
  value of that entry itself; with no entry, the properties are an empty mapping. In both
  cases the domain of the feature, when it has one, is then stored under \<open>"domain"\<close>.
\<close>

theorem untyped_entries:
  assumes "extra_metadata (annotation f) = Entries es"
  shows "(length es > 1 \<longrightarrow>
            merlin_column parse f = Inl (MalformedExtension (fname f) (length es))
            \<and> (\<forall>fs1 fs2. (\<forall>g\<in>set fs1. column_of parse g \<noteq> None) \<longrightarrow>
                 to_merlin_schema parse (fs1 @ f # fs2)
                   = Inl (MalformedExtension (fname f) (length es))))
       \<and> (\<forall>e. es = [e] \<longrightarrow>
            (\<exists>f1. merlin_properties parse f = Inr (f1, EntryValue0)
               \<and> ref_load f1 EntryValue0 =
                   (if merlin_domain f = [] then entry_value e
                    else dict_setitem (entry_value e) ''domain'' (PDict (merlin_domain f)))))
       \<and> (es = [] \<longrightarrow>
            merlin_properties parse f =
              Inr (f, Fresh (if merlin_domain f = [] then []
                             else [(''domain'', PDict (merlin_domain f))])))"
proof (intro conjI impI allI)
  assume len: "length es > 1"
  with assms have p: "merlin_properties parse f = Inl (MalformedExtension (fname f) (length es))"
    by (simp add: merlin_properties_def)
  then show c: "merlin_column parse f = Inl (MalformedExtension (fname f) (length es))"
    by (rule merlin_column_fails)
  fix fs1 fs2 :: "'a Feature list"
  assume "\<forall>g\<in>set fs1. column_of parse g \<noteq> None"
  from to_merlin_schema_loop_fails [OF this c]
  show "to_merlin_schema parse (fs1 @ f # fs2) = Inl (MalformedExtension (fname f) (length es))"
    by (simp add: to_merlin_schema_def)
next
  fix e
  assume "es = [e]"
  with assms show "\<exists>f1. merlin_properties parse f = Inr (f1, EntryValue0)
      \<and> ref_load f1 EntryValue0 =
          (if merlin_domain f = [] then entry_value e
           else dict_setitem (entry_value e) ''domain'' (PDict (merlin_domain f)))"
    by (simp add: merlin_properties_def ref_setitem_def Let_def)
next
  assume "es = []"
  with assms show "merlin_properties parse f =
      Inr (f, Fresh (if merlin_domain f = [] then []
                     else [(''domain'', PDict (merlin_domain f))]))"
    by (simp add: merlin_properties_def ref_setitem_def Let_def dict_setitem_def)
qed

theorem untyped_entries_witness:
  "to_merlin_schema Some [legacy_feature, two_entries_feature :: pydict Feature]
     = Inl (MalformedExtension ''g'' 2)
   \<and> (\<exists>f1. merlin_properties Some (legacy_feature :: pydict Feature) = Inr (f1, EntryValue0)
        \<and> ref_load f1 EntryValue0 = [(''is_list'', PBool True), (''k'', PInt 1)])
   \<and> merlin_properties Some (Feature ''h'' :: pydict Feature) = Inr (Feature ''h'', Fresh [])"
proof -
  have a: "extra_metadata (annotation (two_entries_feature :: pydict Feature)) = Entries [Entry [], Entry []]"
    by (simp add: two_entries_feature_def)
  have b: "extra_metadata (annotation (legacy_feature :: pydict Feature))
      = Entries [Entry [(''is_list'', PBool True), (''k'', PInt 1)]]"
    by (simp add: legacy_feature_def)
  have c: "extra_metadata (annotation (Feature ''h'' :: pydict Feature)) = Entries []"
    by (simp add: Feature_def)
  have d: "\<forall>g\<in>set [legacy_feature :: pydict Feature]. column_of Some g \<noteq> None"
    by (simp add: legacy_feature_def reverse_simps)
  have "length [Entry [], Entry []] > 1"
    by simp
  with untyped_entries [OF a, of Some]
  have "\<forall>fs1 fs2. (\<forall>g\<in>set fs1. column_of Some g \<noteq> None) \<longrightarrow>
      to_merlin_schema Some (fs1 @ two_entries_feature # fs2)
        = Inl (MalformedExtension (fname (two_entries_feature :: pydict Feature))
                 (length [Entry [], Entry []]))"
    by blast
  from this [THEN spec, THEN spec, THEN mp, OF d, of "[]"]
  have 1: "to_merlin_schema Some [legacy_feature, two_entries_feature]
      = Inl (MalformedExtension ''g'' 2)"
    by (simp add: two_entries_feature_def Feature_def)
  from untyped_entries [OF b, of Some]
  have 2: "\<exists>f1. merlin_properties Some legacy_feature = Inr (f1, EntryValue0)
        \<and> ref_load f1 EntryValue0 = [(''is_list'', PBool True), (''k'', PInt 1)]"
    by (simp add: legacy_feature_def merlin_domain_def dict_lookup_def DOMAIN_ATTRS_def)
  from untyped_entries [OF c, of Some]
  have 3: "merlin_properties Some (Feature ''h'') = Inr (Feature ''h'', Fresh [])"
    by (simp add: Feature_def merlin_domain_def dict_lookup_def DOMAIN_ATTRS_def)
  from 1 2 3 show ?thesis by simp
qed

section \<open>The round trip\<close>

lemma map_of_filter_key:
  "map_of (filter (\<lambda>(k, v). k \<noteq> x) d) k = (if k = x then None else map_of d k)"
  by (induction d) auto

lemma extra_properties_lookup:
  "map_of (extra_properties c) k =
     (if k = ''is_ragged'' then Some (PBool (is_ragged c))
      else if k = ''is_list'' then Some (PBool (is_list c))
      else if k = ''domain'' then None
      else map_of (properties c) k)"
  by (simp add: extra_properties_def dict_setitem_def update_conv' map_of_filter_key)



lemma struct_fields_lookup:
  "struct_fields d = Inr d'
     \<Longrightarrow> map_option Inr (map_of d' k) = map_option struct_value (map_of d k)"
proof (induction d arbitrary: d')
  case Nil
  then show ?case by simp
next
  case (Cons kv d)
  obtain k0 v where kv: "kv = (k0, v)"
    by (cases kv)
  with Cons.prems obtain w d'' where
    w: "struct_value v = Inr w" and d'': "struct_fields d = Inr d''" and d': "d' = (k0, w) # d''"
    by (auto split: sum.splits)
  from Cons.IH [OF d''] kv w d' show ?case
    by simp
qed

lemma roundtrip_column:
  fixes pack :: "pydict \<Rightarrow> error + 'b"
  assumes f: "pb_feature pack c = Inr f"
    and b: "pack (extra_properties c) = Inr b"
    and p: "parse b = Some P"
    and l: "map_of P ''is_list'' = Some (PBool (is_list c))"
    and r: "map_of P ''is_ragged'' = Some (PBool (is_ragged c))"
  shows "merlin_column parse f =
     Inr (f, \<lparr>name = name c, tags = map StrTag (pb_tag c),
              properties =
                AList.delete ''is_ragged'' (AList.delete ''is_list''
                  (if merlin_domain f = [] then P
                   else AList.update ''domain'' (PDict (merlin_domain f)) P)),
              dtype = merlin_dtype f, is_list = is_list c, is_ragged = is_ragged c\<rparr>)"
proof -
  let ?P = "if merlin_domain f = [] then P
            else AList.update ''domain'' (PDict (merlin_domain f)) P"
  have ann: "extra_metadata (annotation f) =
      Any ''type.googleapis.com/google.protobuf.Struct'' b"
    and tg: "tag (annotation f) = pb_tag c" and nm: "fname f = name c"
    using pb_feature_Inr(2,3) [OF f] b by auto
  have props: "merlin_properties parse f = Inr (f, Fresh ?P)"
    using ann p
    by (simp add: merlin_properties_def ref_setitem_def dict_setitem_def Let_def)
  have l': "map_of ?P ''is_list'' = Some (PBool (is_list c))"
    by (simp add: update_conv' l)
  have r': "map_of (AList.delete ''is_list'' ?P) ''is_ragged'' = Some (PBool (is_ragged c))"
    by (simp add: delete_conv' update_conv' r)
  show ?thesis
    unfolding merlin_column_def props Let_def
    by (simp add: ref_pop_def dict_pop_def l' r' tg nm del: AList.delete_simps)
qed

text \<open>Under the Struct codec the payload comes back field by field, the flags as they are.\<close>

lemma struct_roundtrip_column:
  assumes f: "pb_feature struct_pack c = Inr f"
  shows "\<exists>P. struct_fields (extra_properties c) = Inr P
     \<and> merlin_column struct_parse f =
         Inr (f, \<lparr>name = name c, tags = map StrTag (pb_tag c),
                  properties =
                    AList.delete ''is_ragged'' (AList.delete ''is_list''
                      (if merlin_domain f = [] then P
                       else AList.update ''domain'' (PDict (merlin_domain f)) P)),
                  dtype = merlin_dtype f, is_list = is_list c, is_ragged = is_ragged c\<rparr>)"
proof -
  from pb_feature_Inr(3) [OF f] obtain b where b: "struct_pack (extra_properties c) = Inr b"
    by blast
  then obtain P where P: "struct_fields (extra_properties c) = Inr P" and bP: "b = StructBytes P"
    by (auto simp: struct_pack_def split: sum.splits)
  have p: "struct_parse b = Some P"
    by (simp add: bP)
  from struct_fields_lookup [OF P, of "''is_list''"]
  have l: "map_of P ''is_list'' = Some (PBool (is_list c))"
    by (auto simp: extra_properties_lookup)
  from struct_fields_lookup [OF P, of "''is_ragged''"]
  have r: "map_of P ''is_ragged'' = Some (PBool (is_ragged c))"
    by (auto simp: extra_properties_lookup)
  from roundtrip_column [where parse = struct_parse, OF f b p l r] P show ?thesis
    by blast
qed

lemma pb_feature_total:
  fixes pack :: "pydict \<Rightarrow> error + 'b"
  assumes "\<not> isl (dtype_name c)" and "well_formed c" and "serialisable pack c"
  shows "\<exists>f. pb_feature pack c = Inr f"
proof -
  from assms(1) obtain dn where dn: "dtype_name c = Inr dn"
    by (cases "dtype_name c") auto
  from assms(2) have dom: "column_family c = None \<or> domain_ok c"
    and vc: "\<not> is_list c \<or> value_count_ok c"
    by (auto simp: well_formed_def)
  from set_feature_domain_total [OF dn dom]
  obtain f1 :: "'b Feature" where "set_feature_domain (Feature (name c)) c = Inr f1"
    by blast
  from pb_feature_returns [OF this] vc assms(3) show ?thesis
    by blast
qed

lemma from_merlin_schema_loop_total:
  assumes "\<forall>(n, c)\<in>set s. \<exists>f. pb_feature pack c = Inr f"
  shows "\<exists>fs. from_merlin_schema_loop pack s acc = Inr (acc @ fs)
     \<and> list_all2 (\<lambda>nc f. pb_feature pack (snd nc) = Inr f) s fs"
  using assms
proof (induction s arbitrary: acc)
  case Nil
  then show ?case by simp
next
  case (Cons nc s)
  obtain n c where nc: "nc = (n, c)"
    by (cases nc)
  with Cons.prems obtain f where f: "pb_feature pack c = Inr f"
    by auto
  from Cons.prems have "\<forall>(n, c)\<in>set s. \<exists>f. pb_feature pack c = Inr f"
    by simp
  from Cons.IH [OF this, of "acc @ [f]"] obtain fs where
    "from_merlin_schema_loop pack s (acc @ [f]) = Inr ((acc @ [f]) @ fs)"
    "list_all2 (\<lambda>nc f. pb_feature pack (snd nc) = Inr f) s fs"
    by blast
  with nc f show ?case
    by (intro exI [of _ "f # fs"]) simp
qed

lemma to_merlin_schema_loop_unchanged:
  assumes "\<forall>f\<in>set fs. \<exists>c. merlin_column parse f = Inr (f, c)"
  shows "\<exists>sch'. to_merlin_schema_loop parse fs sch = Inr (fs, sch')"
  using assms
proof (induction fs arbitrary: sch)
  case Nil
  then show ?case by simp
next
  case (Cons f fs)
  from Cons.prems obtain c where c: "merlin_column parse f = Inr (f, c)"
    by auto
  from Cons.prems have "\<forall>f\<in>set fs. \<exists>c. merlin_column parse f = Inr (f, c)"
    by simp
  from Cons.IH [OF this, of "dict_setitem sch (name c) c"] c show ?case
    by auto
qed

lemma filter_distinct_key:
  "distinct (map g xs) \<Longrightarrow> x \<in> set xs \<Longrightarrow> filter (\<lambda>y. g y = g x) xs = [x]"
proof (induction xs)
  case Nil
  then show ?case by simp
next
  case (Cons a xs)
  show ?case
  proof (cases "a = x")
    case True
    with Cons.prems(1) have "g x \<notin> g ` set xs"
      by simp
    then have "\<And>y. y \<in> set xs \<Longrightarrow> g y \<noteq> g x"
      by (metis imageI)
    then have "filter (\<lambda>y. g y = g x) xs = []"
      by (simp add: filter_empty_conv)
    with True show ?thesis by simp
  next
    case False
    with Cons.prems have "x \<in> set xs" and "g a \<noteq> g x"
      by auto
    with Cons.IH Cons.prems(1) show ?thesis by simp
  qed
qed

lemma list_all2_in_set1:
  "list_all2 P xs ys \<Longrightarrow> x \<in> set xs \<Longrightarrow> \<exists>y\<in>set ys. P x y"
  by (induction rule: list_all2_induct) auto

lemma list_all2_in_set2:
  "list_all2 P xs ys \<Longrightarrow> y \<in> set ys \<Longrightarrow> \<exists>x\<in>set xs. P x y"
  by (induction rule: list_all2_induct) auto

lemma roundtrip_schema:
  assumes ok: "schema_ok s"
    and conv: "\<forall>(n, c)\<in>set s. \<exists>f. pb_feature struct_pack c = Inr f"
  shows "\<exists>fs s'. from_merlin_schema struct_pack s = Inr fs
     \<and> to_merlin_schema struct_parse fs = Inr (fs, s')
     \<and> (\<forall>(n, c)\<in>set s. \<exists>f. pb_feature struct_pack c = Inr f \<and> f \<in> set fs
           \<and> dict_lookup s' n = column_of struct_parse f)"
proof -
  from from_merlin_schema_loop_total [OF conv, of "[]"] obtain fs where
    fs: "from_merlin_schema struct_pack s = Inr fs" and
    all2: "list_all2 (\<lambda>nc f. pb_feature struct_pack (snd nc) = Inr f) s fs"
    by (auto simp: from_merlin_schema_def)
  have each: "\<exists>nc\<in>set s. pb_feature struct_pack (snd nc) = Inr f" if "f \<in> set fs" for f
    using list_all2_in_set2 [OF all2 that] .
  have key: "fname f = fst nc"
    if "nc \<in> set s" "pb_feature struct_pack (snd nc) = Inr f" for nc f
    using that ok pb_feature_Inr(2) [OF that(2)]
    by (auto simp: schema_ok_def list_all_iff)
  have names: "map fname fs = map fst s"
    using all2 key
    by (induction rule: list_all2_induct) auto
  have same: "\<forall>f\<in>set fs. \<exists>c. merlin_column struct_parse f = Inr (f, c)"
  proof
    fix f
    assume "f \<in> set fs"
    from each [OF this] obtain nc where "nc \<in> set s" "pb_feature struct_pack (snd nc) = Inr f"
      by blast
    from struct_roundtrip_column [OF this(2)]
    show "\<exists>c. merlin_column struct_parse f = Inr (f, c)"
      by blast
  qed
  from to_merlin_schema_loop_unchanged [OF same, of "[]"] obtain s' where
    s': "to_merlin_schema_loop struct_parse fs [] = Inr (fs, s')"
    by blast
  have "\<exists>f. pb_feature struct_pack c = Inr f \<and> f \<in> set fs
      \<and> dict_lookup s' n = column_of struct_parse f"
    if "(n, c) \<in> set s" for n c
  proof -
    from list_all2_in_set1 [OF all2 that] obtain f where
      f: "pb_feature struct_pack c = Inr f" "f \<in> set fs"
      by auto
    from key [OF that] f(1) have n: "fname f = n"
      by simp
    from ok names have "distinct (map fname fs)"
      by (simp add: schema_ok_def)
    from filter_distinct_key [OF this f(2)] n
    have "filter (\<lambda>g. fname g = n) fs = [f]"
      by simp
    with to_merlin_schema_loop_lookup [OF s', of n] f(2) n
    have "dict_lookup s' n = column_of struct_parse f"
      by auto
    with f show ?thesis by blast
  qed
  with fs s' show ?thesis
    by (auto simp: to_merlin_schema_def)
qed


lemma roundtrip_column_facts:
  assumes f: "pb_feature struct_pack c = Inr f"
  shows "\<exists>c'. column_of struct_parse f = Some c' \<and> name c' = name c
     \<and> tags c' = map (\<lambda>t. StrTag (Tags_value t)) (tags c)
     \<and> is_list c' = is_list c \<and> is_ragged c' = is_ragged c
     \<and> map_option Inr (dict_lookup (properties c') ''value_count'')
         = map_option struct_value (dict_lookup (properties c) ''value_count'')
     \<and> dict_lookup (properties c') ''domain'' =
         (if merlin_domain f = [] then None else Some (PDict (merlin_domain f)))"
proof -
  from struct_roundtrip_column [OF f] obtain P where
    P: "struct_fields (extra_properties c) = Inr P" and
    m: "merlin_column struct_parse f =
         Inr (f, \<lparr>name = name c, tags = map StrTag (pb_tag c),
                  properties =
                    AList.delete ''is_ragged'' (AList.delete ''is_list''
                      (if merlin_domain f = [] then P
                       else AList.update ''domain'' (PDict (merlin_domain f)) P)),
                  dtype = merlin_dtype f, is_list = is_list c, is_ragged = is_ragged c\<rparr>)"
    by blast
  from struct_fields_lookup [OF P, of "''value_count''"]
  have vc: "map_option Inr (map_of P ''value_count'')
      = map_option struct_value (map_of (properties c) ''value_count'')"
    by (simp add: extra_properties_lookup)
  from struct_fields_lookup [OF P, of "''domain''"]
  have dm: "map_of P ''domain'' = None"
    by (simp add: extra_properties_lookup)
  show ?thesis
    unfolding column_of_def m
    by (simp add: pb_tag_def dict_lookup_def delete_conv' update_conv' vc dm
        del: AList.delete_simps)
qed


text \<open>
  C10 as stated fails: the value count \<open>{min: 3, max: 7}\<close> of \<open>example_column\<close> comes back
  from the round trip as \<open>{min: 3.0, max: 7.0}\<close>, the doubles that the Struct holds.
\<close>

theorem value_count_comes_back_as_doubles:
  "from_merlin_schema struct_pack [(''a'', example_column)] = Inr [example_feature]
   \<and> to_merlin_schema struct_parse [example_feature]
       = Inr ([example_feature], [(''a'', example_column_back)])
   \<and> dict_lookup (properties example_column) ''value_count''
       = Some (PDict [(''min'', PInt 3), (''max'', PInt 7)])
   \<and> dict_lookup (properties example_column_back) ''value_count''
       = Some (PDict [(''min'', PFloat 3), (''max'', PFloat 7)])"
  by (simp add: from_merlin_schema_def example_column_def example_feature_def
      example_column_back_def eval_simps reverse_simps)

text \<open>
  C10, as amended. For every internal schema that holds each column once under its own
  name, whose columns have a named dtype and well-formed properties that serialise, the
  round trip under the Struct codec raises nothing, and the column that comes back under
  each name has \<open>properties["value_count"]\<close> exactly when the original has it, with the
  value that the Struct codec stores for the original value: the same value with every
  integer replaced by its double.
\<close>

theorem value_count_round_trip:
  assumes ok: "schema_ok s"
    and wf: "\<forall>(n, c)\<in>set s.
        \<not> isl (dtype_name c) \<and> well_formed c \<and> serialisable struct_pack c"
  shows "\<exists>fs s'. from_merlin_schema struct_pack s = Inr fs
     \<and> to_merlin_schema struct_parse fs = Inr (fs, s')
     \<and> (\<forall>(n, c)\<in>set s. \<exists>c'. dict_lookup s' n = Some c'
           \<and> map_option Inr (dict_lookup (properties c') ''value_count'')
               = map_option struct_value (dict_lookup (properties c) ''value_count''))"
proof -
  have conv: "\<forall>(n, c)\<in>set s. \<exists>f. pb_feature struct_pack c = Inr f"
    using wf pb_feature_total [where pack = struct_pack] by blast
  from roundtrip_schema [OF ok conv] obtain fs s' where
    fs: "from_merlin_schema struct_pack s = Inr fs"
      "to_merlin_schema struct_parse fs = Inr (fs, s')" and
    each: "\<forall>(n, c)\<in>set s. \<exists>f. pb_feature struct_pack c = Inr f \<and> f \<in> set fs
           \<and> dict_lookup s' n = column_of struct_parse f"
    by blast
  have "\<exists>c'. dict_lookup s' n = Some c'
      \<and> map_option Inr (dict_lookup (properties c') ''value_count'')
          = map_option struct_value (dict_lookup (properties c) ''value_count'')"
    if nc: "(n, c) \<in> set s" for n c
  proof -
    from each nc obtain f where f: "pb_feature struct_pack c = Inr f"
      and l: "dict_lookup s' n = column_of struct_parse f"
      by blast
    from roundtrip_column_facts [OF f] l show ?thesis
      by auto
  qed
  with fs show ?thesis
    by blast
qed

lemma example_schema_ok:
  "schema_ok example_schema"
  "\<forall>(n, c)\<in>set example_schema.
     column_family c \<noteq> None \<and> well_formed c \<and> serialisable struct_pack c"
  "\<forall>(n, c)\<in>set example_schema.
     \<not> isl (dtype_name c) \<and> well_formed c \<and> serialisable struct_pack c"
  "(''a'', example_column) \<in> set example_schema"
  by (simp_all add: example_schema_def schema_ok_def example_columns example_simps
      serialisable_def struct_pack_def extra_properties_def dict_setitem_def float_of_int_def)


theorem value_count_round_trip_witness:
  "schema_ok example_schema
   \<and> (\<exists>fs s'. from_merlin_schema struct_pack example_schema = Inr fs
         \<and> to_merlin_schema struct_parse fs = Inr (fs, s')
         \<and> (\<exists>c'. dict_lookup s' ''a'' = Some c'
               \<and> dict_lookup (properties c') ''value_count''
                   = Some (PDict [(''min'', PFloat 3), (''max'', PFloat 7)])))"
proof -
  from value_count_round_trip [OF example_schema_ok(1,3)]
  obtain fs s' where
    fs: "from_merlin_schema struct_pack example_schema = Inr fs"
      "to_merlin_schema struct_parse fs = Inr (fs, s')"
    and each: "\<forall>(n, c)\<in>set example_schema. \<exists>c'. dict_lookup s' n = Some c'
           \<and> map_option Inr (dict_lookup (properties c') ''value_count'')
               = map_option struct_value (dict_lookup (properties c) ''value_count'')"
    by blast
  from each example_schema_ok(4) obtain c' where
    c': "dict_lookup s' ''a'' = Some c'"
    "map_option Inr (dict_lookup (properties c') ''value_count'')
       = map_option struct_value (dict_lookup (properties example_column) ''value_count'')"
    by blast
  have "map_option struct_value (dict_lookup (properties example_column) ''value_count'')
      = Some (Inr (PDict [(''min'', PFloat 3), (''max'', PFloat 7)]))"
    by (simp add: example_simps float_of_int_def)
  with c'(2) have "dict_lookup (properties c') ''value_count''
      = Some (PDict [(''min'', PFloat 3), (''max'', PFloat 7)])"
    by (cases "dict_lookup (properties c') ''value_count''") auto
  with c'(1) fs example_schema_ok(1) show ?thesis
    by blast
qed

end
